theory Spec2Isabelle
  imports Complex_Main
begin

section \<open>Geometry: vectors, matrices and rigid poses\<close>

text \<open>
  The generator of \<^verbatim>\<open>grasp_generator.cpp\<close> computes with \<^verbatim>\<open>double\<close>. The embedding
  reads every \<^verbatim>\<open>double\<close> as a real number: rounding, infinities and NaN are not part of
  the model. Where the source divides by a value that can be zero and the IEEE result
  decides a branch, the branch is written out (see \<open>faceCrossing\<close>).

  \<^verbatim>\<open>Eigen::Vector3d\<close> is a triple, \<^verbatim>\<open>Eigen::Matrix3d\<close> a triple of rows and
  \<^verbatim>\<open>Eigen::Affine3d\<close> a record of the linear part and the translation.
\<close>

type_synonym Vector3d = "real \<times> real \<times> real"

type_synonym Matrix3d = "Vector3d \<times> Vector3d \<times> Vector3d"

definition UnitX :: Vector3d where
  "UnitX = (1, 0, 0)"

definition UnitY :: Vector3d where
  "UnitY = (0, 1, 0)"

definition UnitZ :: Vector3d where
  "UnitZ = (0, 0, 1)"

fun vadd :: "Vector3d \<Rightarrow> Vector3d \<Rightarrow> Vector3d" where
  "vadd (a, b, c) (x, y, z) = (a + x, b + y, c + z)"

fun vsub :: "Vector3d \<Rightarrow> Vector3d \<Rightarrow> Vector3d" where
  "vsub (a, b, c) (x, y, z) = (a - x, b - y, c - z)"

fun vneg :: "Vector3d \<Rightarrow> Vector3d" where
  "vneg (x, y, z) = (- x, - y, - z)"

fun smul :: "real \<Rightarrow> Vector3d \<Rightarrow> Vector3d" where
  "smul k (x, y, z) = (k * x, k * y, k * z)"

fun dot :: "Vector3d \<Rightarrow> Vector3d \<Rightarrow> real" where
  "dot (a, b, c) (x, y, z) = a * x + b * y + c * z"

fun cross :: "Vector3d \<Rightarrow> Vector3d \<Rightarrow> Vector3d" where
  "cross (a, b, c) (x, y, z) = (b * z - c * y, c * x - a * z, a * y - b * x)"

definition norm3 :: "Vector3d \<Rightarrow> real" where
  "norm3 v = sqrt (dot v v)"

text \<open>\<^verbatim>\<open>normalized()\<close>: the vector divided by its norm.\<close>

definition normalized :: "Vector3d \<Rightarrow> Vector3d" where
  "normalized v = smul (1 / norm3 v) v"

fun vx :: "Vector3d \<Rightarrow> real" where
  "vx (x, y, z) = x"

fun vy :: "Vector3d \<Rightarrow> real" where
  "vy (x, y, z) = y"

fun vz :: "Vector3d \<Rightarrow> real" where
  "vz (x, y, z) = z"

fun mat_vec :: "Matrix3d \<Rightarrow> Vector3d \<Rightarrow> Vector3d" where
  "mat_vec (r1, r2, r3) v = (dot r1 v, dot r2 v, dot r3 v)"

fun col1 :: "Matrix3d \<Rightarrow> Vector3d" where
  "col1 ((a, b, c), (d, e, f), (g, h, i)) = (a, d, g)"

fun col2 :: "Matrix3d \<Rightarrow> Vector3d" where
  "col2 ((a, b, c), (d, e, f), (g, h, i)) = (b, e, h)"

fun col3 :: "Matrix3d \<Rightarrow> Vector3d" where
  "col3 ((a, b, c), (d, e, f), (g, h, i)) = (c, f, i)"

text \<open>The matrix whose columns are the three vectors (\<^verbatim>\<open>m << axis_1, axis_2, axis_3\<close>).\<close>

fun from_cols :: "Vector3d \<Rightarrow> Vector3d \<Rightarrow> Vector3d \<Rightarrow> Matrix3d" where
  "from_cols (a, d, g) (b, e, h) (c, f, i) = ((a, b, c), (d, e, f), (g, h, i))"

fun mat_mul :: "Matrix3d \<Rightarrow> Matrix3d \<Rightarrow> Matrix3d" where
  "mat_mul (r1, r2, r3) B =
     ((dot r1 (col1 B), dot r1 (col2 B), dot r1 (col3 B)),
      (dot r2 (col1 B), dot r2 (col2 B), dot r2 (col3 B)),
      (dot r3 (col1 B), dot r3 (col2 B), dot r3 (col3 B)))"

definition mat_identity :: Matrix3d where
  "mat_identity = ((1, 0, 0), (0, 1, 0), (0, 0, 1))"

fun det3 :: "Matrix3d \<Rightarrow> real" where
  "det3 ((a, b, c), (d, e, f), (g, h, i)) =
     a * (e * i - f * h) - b * (d * i - f * g) + c * (d * h - e * g)"

text \<open>The inverse of the linear part, by cofactors over the determinant.\<close>

fun mat_inverse :: "Matrix3d \<Rightarrow> Matrix3d" where
  "mat_inverse ((a, b, c), (d, e, f), (g, h, i)) =
     (let D = det3 ((a, b, c), (d, e, f), (g, h, i)) in
      (((e * i - f * h) / D, (c * h - b * i) / D, (b * f - c * e) / D),
       ((f * g - d * i) / D, (a * i - c * g) / D, (c * d - a * f) / D),
       ((d * h - e * g) / D, (b * g - a * h) / D, (a * e - b * d) / D)))"

text \<open>\<^verbatim>\<open>Eigen::AngleAxisd(angle, UnitX / UnitY / UnitZ)\<close> as rotation matrices.\<close>

definition AngleAxisX :: "real \<Rightarrow> Matrix3d" where
  "AngleAxisX t = ((1, 0, 0), (0, cos t, - sin t), (0, sin t, cos t))"

definition AngleAxisY :: "real \<Rightarrow> Matrix3d" where
  "AngleAxisY t = ((cos t, 0, sin t), (0, 1, 0), (- sin t, 0, cos t))"

definition AngleAxisZ :: "real \<Rightarrow> Matrix3d" where
  "AngleAxisZ t = ((cos t, - sin t, 0), (sin t, cos t, 0), (0, 0, 1))"

record Affine3d =
  linear_part :: Matrix3d
  translation :: Vector3d

definition affine_identity :: Affine3d where
  "affine_identity = \<lparr>linear_part = mat_identity, translation = (0, 0, 0)\<rparr>"

text \<open>
  \<^verbatim>\<open>pose *= rotation\<close> and \<^verbatim>\<open>pose * rotation\<close>: the linear part is multiplied on the
  right, the translation stays.
\<close>

definition rotate_by :: "Affine3d \<Rightarrow> Matrix3d \<Rightarrow> Affine3d" where
  "rotate_by p R = p\<lparr>linear_part := mat_mul (linear_part p) R\<rparr>"

text \<open>
  \<^verbatim>\<open>pose.rotation()\<close>. Every pose of the generator is a rigid transform (the cuboid pose
  times rotations), for which Eigen's \<^verbatim>\<open>rotation()\<close> is the linear part.
\<close>

definition rotation :: "Affine3d \<Rightarrow> Matrix3d" where
  "rotation p = linear_part p"

text \<open>\<^verbatim>\<open>pose.translation() += v\<close>.\<close>

definition translate :: "Affine3d \<Rightarrow> Vector3d \<Rightarrow> Affine3d" where
  "translate p v = p\<lparr>translation := vadd (translation p) v\<rparr>"

text \<open>\<^verbatim>\<open>pose * point\<close>.\<close>

definition affine_apply :: "Affine3d \<Rightarrow> Vector3d \<Rightarrow> Vector3d" where
  "affine_apply p v = vadd (mat_vec (linear_part p) v) (translation p)"

text \<open>\<^verbatim>\<open>pose * other_pose\<close>.\<close>

definition affine_mul :: "Affine3d \<Rightarrow> Affine3d \<Rightarrow> Affine3d" where
  "affine_mul p q =
     \<lparr>linear_part = mat_mul (linear_part p) (linear_part q), translation = affine_apply p (translation q)\<rparr>"

text \<open>\<^verbatim>\<open>pose.inverse()\<close>.\<close>

definition affine_inverse :: "Affine3d \<Rightarrow> Affine3d" where
  "affine_inverse p =
     \<lparr>linear_part = mat_inverse (linear_part p),
      translation = vneg (mat_vec (mat_inverse (linear_part p)) (translation p))\<rparr>"

section \<open>Gripper data\<close>

text \<open>
  The fields of \<^verbatim>\<open>GraspData\<close> that the generator reads. The class is declared outside
  \<^verbatim>\<open>grasp_generator.cpp\<close>; postures and link names, which only travel into the output
  message, are left out. The members' trailing underscore is dropped
  (\<^verbatim>\<open>finger_to_palm_depth_\<close> is \<open>finger_to_palm_depth\<close>), as an Isabelle name cannot end
  with one.
\<close>

record GraspData =
  finger_to_palm_depth :: real
  grasp_min_depth :: real
  angle_resolution :: real
  gripper_width :: real
  grasp_resolution :: real
  grasp_depth_resolution :: real
  grasp_pose_to_eef_pose :: Affine3d

section \<open>The intersection test\<close>

text \<open>
  \<^verbatim>\<open>intersectionHelper\<close> (lines 464-478). The out-parameters \<^verbatim>\<open>u\<close> and \<^verbatim>\<open>v\<close> are read
  only by the test itself; the model returns the boolean.
\<close>

definition intersectionHelper ::
  "real \<Rightarrow> real \<Rightarrow> real \<Rightarrow> real \<Rightarrow> real \<Rightarrow> real \<Rightarrow> real \<Rightarrow> bool" where
  "intersectionHelper t u1 v1 u2 v2 a b =
     (if 0 \<le> t \<and> t \<le> 1 then
        (let u = u1 + t * (u2 - u1); v = v1 + t * (v2 - v1) in
         if - a / 2 \<le> u \<and> u \<le> a / 2 \<and> - b / 2 \<le> v \<and> v \<le> b / 2 then True else False)
      else False)"

text \<open>
  One face of \<^verbatim>\<open>graspIntersectionHelper\<close>: \<^verbatim>\<open>t = num / den\<close>, then the test. When
  \<^verbatim>\<open>den\<close> is zero the source's \<^verbatim>\<open>t\<close> is an infinity or NaN, for which
  \<^verbatim>\<open>t >= 0 && t <= 1\<close> is false; HOL's \<open>num / 0 = 0\<close> would pass it, so the case is
  written out.
\<close>

definition faceCrossing ::
  "real \<Rightarrow> real \<Rightarrow> real \<Rightarrow> real \<Rightarrow> real \<Rightarrow> real \<Rightarrow> real \<Rightarrow> real \<Rightarrow> bool" where
  "faceCrossing num den u1 v1 u2 v2 a b =
     (if den = 0 then False else intersectionHelper (num / den) u1 v1 u2 v2 a b)"

text \<open>
  \<^verbatim>\<open>graspIntersectionHelper\<close> (lines 354-462): the segment from the grasp point to the
  fingertip, in cuboid coordinates, against the six faces in the source's order.
\<close>

definition graspIntersectionHelper ::
  "Affine3d \<Rightarrow> real \<Rightarrow> real \<Rightarrow> real \<Rightarrow> Affine3d \<Rightarrow> GraspData \<Rightarrow> bool" where
  "graspIntersectionHelper cuboid_pose depth width height grasp_pose grasp_data =
     (let point_a0 = translation grasp_pose;
          point_b0 = vadd point_a0
            (smul (finger_to_palm_depth grasp_data) (mat_vec (rotation grasp_pose) UnitZ));
          point_a = affine_apply (affine_inverse cuboid_pose) point_a0;
          point_b = affine_apply (affine_inverse cuboid_pose) point_b0
      in
      if faceCrossing (height / 2 - vz point_a) (vz point_b - vz point_a)
           (vx point_a) (vy point_a) (vx point_b) (vy point_b) depth width then True
      else if faceCrossing (- height / 2 - vz point_a) (vz point_b - vz point_a)
           (vx point_a) (vy point_a) (vx point_b) (vy point_b) depth width then True
      else if faceCrossing (width / 2 - vy point_a) (vy point_b - vy point_a)
           (vx point_a) (vz point_a) (vx point_b) (vz point_b) depth height then True
      else if faceCrossing (- width / 2 - vy point_a) (vy point_b - vy point_a)
           (vx point_a) (vz point_a) (vx point_b) (vz point_b) depth height then True
      else if faceCrossing (depth / 2 - vx point_a) (vx point_b - vx point_a)
           (vy point_a) (vz point_a) (vy point_b) (vz point_b) width height then True
      else if faceCrossing (- depth / 2 - vx point_a) (vx point_b - vx point_a)
           (vy point_a) (vz point_a) (vy point_b) (vz point_b) width height then True
      else False)"

section \<open>Enumerating the grasps around one axis\<close>

datatype grasp_axis_t = X_AXIS | Y_AXIS | Z_AXIS

text \<open>
  The counts of the source are \<^verbatim>\<open>int\<close>, of 32 bits. The conversion of a \<^verbatim>\<open>double\<close> to
  \<^verbatim>\<open>int\<close> truncates towards zero, and the language leaves it undefined when the truncated
  value is not representable (also for the infinity that a resolution of zero gives).
  The model gives the truncated value when it is in the range of \<^verbatim>\<open>int\<close> and leaves the
  value unspecified otherwise, so that no count the program's \<^verbatim>\<open>int\<close> cannot hold can
  be derived; the theorems about the counts assume that the values are in range.
\<close>

definition INT_MIN :: int where
  "INT_MIN = - 2147483648"

definition INT_MAX :: int where
  "INT_MAX = 2147483647"

definition int_range :: "int \<Rightarrow> bool" where
  "int_range n = (INT_MIN \<le> n \<and> n \<le> INT_MAX)"

definition double_to_int :: "real \<Rightarrow> int" where
  "double_to_int x =
     (let n = (if 0 \<le> x then \<lfloor>x\<rfloor> else \<lceil>x\<rceil>) in
      if int_range n then n else undefined)"

text \<open>The \<^verbatim>\<open>switch (axis)\<close> of lines 85-117 and the normalisation of lines 124-125.\<close>

definition length_along_a :: "grasp_axis_t \<Rightarrow> real \<Rightarrow> real \<Rightarrow> real \<Rightarrow> real" where
  "length_along_a axis depth width height =
     (case axis of X_AXIS \<Rightarrow> width | Y_AXIS \<Rightarrow> depth | Z_AXIS \<Rightarrow> depth)"

definition length_along_b :: "grasp_axis_t \<Rightarrow> real \<Rightarrow> real \<Rightarrow> real \<Rightarrow> real" where
  "length_along_b axis depth width height =
     (case axis of X_AXIS \<Rightarrow> height | Y_AXIS \<Rightarrow> height | Z_AXIS \<Rightarrow> width)"

definition a_dir :: "grasp_axis_t \<Rightarrow> Affine3d \<Rightarrow> Vector3d" where
  "a_dir axis cuboid_pose =
     normalized (case axis of
        X_AXIS \<Rightarrow> mat_vec (rotation cuboid_pose) UnitY
      | Y_AXIS \<Rightarrow> mat_vec (rotation cuboid_pose) UnitX
      | Z_AXIS \<Rightarrow> mat_vec (rotation cuboid_pose) UnitX)"

definition b_dir :: "grasp_axis_t \<Rightarrow> Affine3d \<Rightarrow> Vector3d" where
  "b_dir axis cuboid_pose =
     normalized (case axis of
        X_AXIS \<Rightarrow> mat_vec (rotation cuboid_pose) UnitZ
      | Y_AXIS \<Rightarrow> mat_vec (rotation cuboid_pose) UnitZ
      | Z_AXIS \<Rightarrow> mat_vec (rotation cuboid_pose) UnitY)"

definition rotation_angles :: "grasp_axis_t \<Rightarrow> real \<times> real \<times> real" where
  "rotation_angles axis =
     (case axis of
        X_AXIS \<Rightarrow> (- pi / 2, 0, - pi / 2)
      | Y_AXIS \<Rightarrow> (0, pi / 2, pi)
      | Z_AXIS \<Rightarrow> (pi / 2, pi / 2, 0))"

text \<open>
  The pose both helpers start from (lines 307-312 and 335-340): the cuboid pose turned by
  the three axis angles, then by the alignment angle about Y, then moved.
\<close>

definition aligned_pose :: "Affine3d \<Rightarrow> real \<times> real \<times> real \<Rightarrow> real \<Rightarrow> Vector3d \<Rightarrow> Affine3d" where
  "aligned_pose pose angles alignment_rotation shift =
     translate
       (rotate_by
          (rotate_by pose
             (mat_mul (mat_mul (AngleAxisX (fst angles)) (AngleAxisY (fst (snd angles))))
                (AngleAxisZ (snd (snd angles)))))
          (AngleAxisY alignment_rotation))
       shift"

text \<open>The loop of \<^verbatim>\<open>addCornerGraspsHelper\<close> (lines 342-349).\<close>

fun corner_loop :: "nat \<Rightarrow> real \<Rightarrow> Affine3d \<Rightarrow> Affine3d list \<Rightarrow> Affine3d list" where
  "corner_loop 0 delta_angle grasp_pose grasp_poses = grasp_poses"
| "corner_loop (Suc n) delta_angle grasp_pose grasp_poses =
     corner_loop n delta_angle (rotate_by grasp_pose (AngleAxisY delta_angle))
       (grasp_poses @ [rotate_by grasp_pose (AngleAxisY delta_angle)])"

text \<open>
  \<^verbatim>\<open>addCornerGraspsHelper\<close> (lines 325-352). The source declares a \<^verbatim>\<open>std::size_t\<close> result
  and returns none; its callers never read it, and the model returns the pose list. The
  loop counter is unsigned, and the only caller passes a count of at least one. The sum
  \<^verbatim>\<open>num_radial_grasps + 1\<close> is \<^verbatim>\<open>int\<close> arithmetic; the theorem about the fans assumes that
  it is in range.
\<close>

definition addCornerGraspsHelper ::
  "Affine3d \<Rightarrow> real \<times> real \<times> real \<Rightarrow> Vector3d \<Rightarrow> real \<Rightarrow> int \<Rightarrow> Affine3d list \<Rightarrow> Affine3d list" where
  "addCornerGraspsHelper pose angles shift corner_rotation num_radial_grasps grasp_poses =
     (let delta_angle = (pi / 2) / real_of_int (num_radial_grasps + 1) in
      corner_loop (nat num_radial_grasps) delta_angle
        (aligned_pose pose angles corner_rotation shift) grasp_poses)"

text \<open>The loop of \<^verbatim>\<open>addFaceGraspsHelper\<close> (lines 314-319).\<close>

fun face_loop :: "nat \<Rightarrow> Vector3d \<Rightarrow> Affine3d \<Rightarrow> Affine3d list \<Rightarrow> Affine3d list" where
  "face_loop 0 delta grasp_pose grasp_poses = grasp_poses"
| "face_loop (Suc n) delta grasp_pose grasp_poses =
     face_loop n delta (translate grasp_pose delta) (grasp_poses @ [translate grasp_pose delta])"

text \<open>\<^verbatim>\<open>addFaceGraspsHelper\<close> (lines 299-323); a signed count below one runs no iteration.\<close>

definition addFaceGraspsHelper ::
  "Affine3d \<Rightarrow> real \<times> real \<times> real \<Rightarrow> Vector3d \<Rightarrow> Vector3d \<Rightarrow> real \<Rightarrow> int \<Rightarrow> Affine3d list \<Rightarrow> Affine3d list" where
  "addFaceGraspsHelper pose angles shift delta alignment_rotation num_grasps grasp_poses =
     face_loop (nat num_grasps) delta (aligned_pose pose angles alignment_rotation shift) grasp_poses"

text \<open>\<^verbatim>\<open>angle_res\<close> (line 133): the configured resolution, converted from degrees.\<close>

definition angle_res :: "GraspData \<Rightarrow> real" where
  "angle_res grasp_data = angle_resolution grasp_data * pi / 180"

text \<open>\<^verbatim>\<open>num_radial_grasps\<close> (lines 134-137).\<close>

definition num_radial_grasps :: "GraspData \<Rightarrow> int" where
  "num_radial_grasps grasp_data =
     (let n = double_to_int (real_of_int \<lceil>(pi / 2) / angle_res grasp_data\<rceil>) in
      if n \<le> 0 then 1 else n)"

text \<open>The back-off of the palm, \<^verbatim>\<open>offset\<close> of line 130.\<close>

definition offset :: real where
  "offset = 0.001"

text \<open>The corner grasps (lines 127-155): four fans, in the source's order.\<close>

definition cornerGrasps ::
  "Affine3d \<Rightarrow> real \<Rightarrow> real \<Rightarrow> real \<Rightarrow> grasp_axis_t \<Rightarrow> GraspData \<Rightarrow> Affine3d list \<Rightarrow> Affine3d list" where
  "cornerGrasps cuboid_pose depth width height axis grasp_data grasp_poses =
     (let corner_translation_a =
            smul (0.5 * (length_along_a axis depth width height + offset)) (a_dir axis cuboid_pose);
          corner_translation_b =
            smul (0.5 * (length_along_b axis depth width height + offset)) (b_dir axis cuboid_pose);
          n = num_radial_grasps grasp_data;
          g0 = addCornerGraspsHelper cuboid_pose (rotation_angles axis)
                 (vsub (vneg corner_translation_a) corner_translation_b) 0 n grasp_poses;
          g1 = addCornerGraspsHelper cuboid_pose (rotation_angles axis)
                 (vadd (vneg corner_translation_a) corner_translation_b) (- pi / 2) n g0;
          g2 = addCornerGraspsHelper cuboid_pose (rotation_angles axis)
                 (vadd corner_translation_a corner_translation_b) pi n g1
      in addCornerGraspsHelper cuboid_pose (rotation_angles axis)
           (vsub corner_translation_a corner_translation_b) (pi / 2) n g2)"

text \<open>
  \<^verbatim>\<open>num_grasps_along_a\<close> and \<^verbatim>\<open>num_grasps_along_b\<close> (lines 160-174), as a function of the
  extent along the direction, and \<^verbatim>\<open>delta_a\<close> and \<^verbatim>\<open>delta_b\<close> (lines 176-184). The
  assignments to the deltas in lines 167 and 172 are overwritten by lines 176-184.
\<close>

definition num_grasps_along :: "real \<Rightarrow> GraspData \<Rightarrow> int" where
  "num_grasps_along len grasp_data =
     (let n = double_to_int
                (real_of_int \<lfloor>(len - gripper_width grasp_data) / grasp_resolution grasp_data\<rfloor> + 1)
      in if n \<le> 0 then 3 else n)"

definition delta_along :: "real \<Rightarrow> GraspData \<Rightarrow> real" where
  "delta_along len grasp_data =
     (if num_grasps_along len grasp_data = 1 then 0
      else (len - gripper_width grasp_data) / real_of_int (num_grasps_along len grasp_data - 1))"

text \<open>
  The face grasps (lines 157-213). All four calls pass \<^verbatim>\<open>num_grasps_along_b\<close>, as the
  source does.
\<close>

definition faceGrasps ::
  "Affine3d \<Rightarrow> real \<Rightarrow> real \<Rightarrow> real \<Rightarrow> grasp_axis_t \<Rightarrow> GraspData \<Rightarrow> Affine3d list \<Rightarrow> Affine3d list" where
  "faceGrasps cuboid_pose depth width height axis grasp_data grasp_poses =
     (let la = length_along_a axis depth width height;
          lb = length_along_b axis depth width height;
          da = a_dir axis cuboid_pose;
          db = b_dir axis cuboid_pose;
          num_grasps_along_a = num_grasps_along la grasp_data;
          num_grasps_along_b = num_grasps_along lb grasp_data;
          delta_a = delta_along la grasp_data;
          delta_b = delta_along lb grasp_data;
          a_translation =
            vsub (vsub (vneg (smul (0.5 * (la + offset)) da))
                       (smul (0.5 * (lb - gripper_width grasp_data)) db))
                 (smul delta_b db);
          b_translation =
            vsub (vsub (smul (- 0.5 * (la - gripper_width grasp_data)) da)
                       (smul delta_a da))
                 (smul (0.5 * (lb + offset)) db);
          g0 = addFaceGraspsHelper cuboid_pose (rotation_angles axis) a_translation
                 (smul delta_b db) 0 num_grasps_along_b grasp_poses;
          g1 = addFaceGraspsHelper cuboid_pose (rotation_angles axis) (vneg b_translation)
                 (smul (- delta_a) da) (- pi / 2) num_grasps_along_b g0;
          g2 = addFaceGraspsHelper cuboid_pose (rotation_angles axis) (vneg a_translation)
                 (smul (- delta_b) db) pi num_grasps_along_b g1
      in addFaceGraspsHelper cuboid_pose (rotation_angles axis) b_translation
           (smul delta_a da) (pi / 2) num_grasps_along_b g2)"

text \<open>The depth grasps (lines 215-237).\<close>

definition finger_depth :: "GraspData \<Rightarrow> real" where
  "finger_depth grasp_data = finger_to_palm_depth grasp_data - grasp_min_depth grasp_data"

definition num_depth_grasps :: "GraspData \<Rightarrow> int" where
  "num_depth_grasps grasp_data =
     (let n = double_to_int
                (real_of_int \<lceil>finger_depth grasp_data / grasp_depth_resolution grasp_data\<rceil>)
      in if n \<le> 0 then 1 else n)"

definition delta_f :: "GraspData \<Rightarrow> real" where
  "delta_f grasp_data = finger_depth grasp_data / real_of_int (num_depth_grasps grasp_data)"

text \<open>The inner loop (lines 232-236): \<^verbatim>\<open>depth_pose.translation() -= delta_f * grasp_dir\<close>.\<close>

fun depth_inner :: "nat \<Rightarrow> real \<Rightarrow> Vector3d \<Rightarrow> Affine3d \<Rightarrow> Affine3d list \<Rightarrow> Affine3d list" where
  "depth_inner 0 df grasp_dir depth_pose grasp_poses = grasp_poses"
| "depth_inner (Suc n) df grasp_dir depth_pose grasp_poses =
     depth_inner n df grasp_dir
       (depth_pose\<lparr>translation := vsub (translation depth_pose) (smul df grasp_dir)\<rparr>)
       (grasp_poses @ [depth_pose\<lparr>translation := vsub (translation depth_pose) (smul df grasp_dir)\<rparr>])"

text \<open>
  The outer loop (lines 228-237) reads \<^verbatim>\<open>grasp_poses[i]\<close> from the growing vector;
  \<^verbatim>\<open>num_grasps\<close> is its size at entry, so every index read is in range.
\<close>

function depth_outer :: "nat \<Rightarrow> nat \<Rightarrow> int \<Rightarrow> real \<Rightarrow> Affine3d list \<Rightarrow> Affine3d list" where
  "depth_outer i num_grasps nd df grasp_poses =
     (if i < num_grasps then
        depth_outer (Suc i) num_grasps nd df
          (depth_inner (nat nd) df (mat_vec (rotation (grasp_poses ! i)) UnitZ)
             (grasp_poses ! i) grasp_poses)
      else grasp_poses)"
  by pat_completeness auto
termination
  by (relation "measure (\<lambda>(i, num_grasps, nd, df, grasp_poses). num_grasps - i)") auto

declare depth_outer.simps [simp del]

definition depthGrasps :: "GraspData \<Rightarrow> Affine3d list \<Rightarrow> Affine3d list" where
  "depthGrasps grasp_data grasp_poses =
     depth_outer 0 (length grasp_poses) (num_depth_grasps grasp_data) (delta_f grasp_data)
       grasp_poses"

text \<open>
  One direction of the variable-angle loop (lines 250-262 and 266-278): while
  \<^verbatim>\<open>graspIntersectionHelper\<close> returns true the pose is pushed and turned by \<open>step\<close>
  about its Y axis; the counter is compared after the push. The counter is an \<^verbatim>\<open>int\<close>
  and reaches at most \<^verbatim>\<open>max_iterations + 1\<close>; the theorem about the loop assumes that this
  value is in range.
\<close>

function sweep_loop ::
  "Affine3d \<Rightarrow> real \<Rightarrow> real \<Rightarrow> real \<Rightarrow> GraspData \<Rightarrow> real \<Rightarrow> int \<Rightarrow> Affine3d \<Rightarrow> int \<Rightarrow>
   Affine3d list \<Rightarrow> Affine3d list" where
  "sweep_loop cuboid_pose depth width height grasp_data step max_iterations grasp_pose
       iterations grasp_poses =
     (if graspIntersectionHelper cuboid_pose depth width height grasp_pose grasp_data then
        (if iterations + 1 > max_iterations then grasp_poses @ [grasp_pose]
         else sweep_loop cuboid_pose depth width height grasp_data step max_iterations
                (rotate_by grasp_pose (AngleAxisY step)) (iterations + 1)
                (grasp_poses @ [grasp_pose]))
      else grasp_poses)"
  by pat_completeness auto
termination
  by (relation "measure (\<lambda>(cuboid_pose, depth, width, height, grasp_data, step,
        max_iterations, grasp_pose, iterations, grasp_poses). nat (max_iterations - iterations))")
     auto

declare sweep_loop.simps [simp del]

text \<open>\<^verbatim>\<open>max_iterations\<close> (line 248).\<close>

definition max_iterations_of :: "GraspData \<Rightarrow> int" where
  "max_iterations_of grasp_data = double_to_int (pi / angle_res grasp_data + 1)"

text \<open>Both directions for one base pose (lines 245-278).\<close>

definition sweep_base ::
  "Affine3d \<Rightarrow> real \<Rightarrow> real \<Rightarrow> real \<Rightarrow> GraspData \<Rightarrow> Affine3d \<Rightarrow> Affine3d list \<Rightarrow> Affine3d list" where
  "sweep_base cuboid_pose depth width height grasp_data base_pose grasp_poses =
     sweep_loop cuboid_pose depth width height grasp_data (- angle_res grasp_data)
       (max_iterations_of grasp_data)
       (rotate_by base_pose (AngleAxisY (- angle_res grasp_data))) 0
       (sweep_loop cuboid_pose depth width height grasp_data (angle_res grasp_data)
          (max_iterations_of grasp_data)
          (rotate_by base_pose (AngleAxisY (angle_res grasp_data))) 0 grasp_poses)"

text \<open>The loop over the base poses (lines 243-279).\<close>

function sweep_outer ::
  "Affine3d \<Rightarrow> real \<Rightarrow> real \<Rightarrow> real \<Rightarrow> GraspData \<Rightarrow> nat \<Rightarrow> nat \<Rightarrow> Affine3d list \<Rightarrow> Affine3d list" where
  "sweep_outer cuboid_pose depth width height grasp_data i num_grasps grasp_poses =
     (if i < num_grasps then
        sweep_outer cuboid_pose depth width height grasp_data (Suc i) num_grasps
          (sweep_base cuboid_pose depth width height grasp_data (grasp_poses ! i) grasp_poses)
      else grasp_poses)"
  by pat_completeness auto
termination
  by (relation "measure (\<lambda>(cuboid_pose, depth, width, height, grasp_data, i, num_grasps,
        grasp_poses). num_grasps - i)") auto

declare sweep_outer.simps [simp del]

text \<open>
  The variable-angle grasps (lines 239-279): the loop starts at \<^verbatim>\<open>num_corner_grasps\<close>,
  the size of the vector after the corner grasps.
\<close>

definition variableAngleGrasps ::
  "Affine3d \<Rightarrow> real \<Rightarrow> real \<Rightarrow> real \<Rightarrow> GraspData \<Rightarrow> nat \<Rightarrow> Affine3d list \<Rightarrow> Affine3d list" where
  "variableAngleGrasps cuboid_pose depth width height grasp_data num_corner_grasps grasp_poses =
     sweep_outer cuboid_pose depth width height grasp_data num_corner_grasps
       (length grasp_poses) grasp_poses"

text \<open>The grasps in both directions (lines 281-289).\<close>

function bidirectional_loop :: "nat \<Rightarrow> nat \<Rightarrow> Affine3d list \<Rightarrow> Affine3d list" where
  "bidirectional_loop i num_grasps grasp_poses =
     (if i < num_grasps then
        bidirectional_loop (Suc i) num_grasps
          (grasp_poses @ [rotate_by (grasp_poses ! i) (AngleAxisZ pi)])
      else grasp_poses)"
  by pat_completeness auto
termination
  by (relation "measure (\<lambda>(i, num_grasps, grasp_poses). num_grasps - i)") auto

declare bidirectional_loop.simps [simp del]

definition bidirectionalGrasps :: "Affine3d list \<Rightarrow> Affine3d list" where
  "bidirectionalGrasps grasp_poses = bidirectional_loop 0 (length grasp_poses) grasp_poses"

text \<open>
  The poses of one axis (lines 76-289), before they are scored. The source keeps the size
  of the vector after the corner grasps in the \<^verbatim>\<open>int\<close> \<^verbatim>\<open>num_corner_grasps\<close>; the theorem
  about the sweep assumes that the size is in range.
\<close>

definition cuboidAxisPoses ::
  "Affine3d \<Rightarrow> real \<Rightarrow> real \<Rightarrow> real \<Rightarrow> grasp_axis_t \<Rightarrow> GraspData \<Rightarrow> Affine3d list" where
  "cuboidAxisPoses cuboid_pose depth width height axis grasp_data =
     (let corners = cornerGrasps cuboid_pose depth width height axis grasp_data [];
          num_corner_grasps = length corners;
          faces = faceGrasps cuboid_pose depth width height axis grasp_data corners;
          depths = depthGrasps grasp_data faces;
          angles = variableAngleGrasps cuboid_pose depth width height grasp_data
                     num_corner_grasps depths
      in bidirectionalGrasps angles)"

section \<open>Scoring and the output collection\<close>

text \<open>
  The members of the generator that the modelled functions read or write, and the
  function-local \<^verbatim>\<open>static int grasp_id\<close> of \<^verbatim>\<open>addGrasp\<close>. The visual tools, which only
  publish markers, are left out.
\<close>

record GraspGenerator =
  verbose :: bool
  show_prefiltered_grasps :: bool
  ideal_grasp_pose :: Affine3d
  grasp_id :: int

text \<open>
  The fields of \<^verbatim>\<open>moveit_msgs::Grasp\<close> that depend on the pose: the number printed in its
  id, the quality and the pose. Time stamps, postures and the fixed approach and retreat
  vectors are left out.
\<close>

record Grasp =
  id_number :: int
  grasp_quality :: real
  grasp_pose :: Affine3d

text \<open>The value \<^verbatim>\<open>scoreGrasp\<close> assigns to the member \<^verbatim>\<open>ideal_grasp_pose_\<close> (lines 556-558).\<close>

definition ideal_pose :: Affine3d where
  "ideal_pose = rotate_by affine_identity (mat_mul (AngleAxisY (pi / 2)) (AngleAxisZ (pi / 2)))"

text \<open>The three individual scores (lines 568-588), against a given ideal pose.\<close>

definition score_z :: "Affine3d \<Rightarrow> Affine3d \<Rightarrow> real" where
  "score_z ideal pose =
     (pi - arccos (dot (mat_vec (rotation pose) UnitZ) (mat_vec (rotation ideal) UnitZ))) / pi"

definition score_y :: "Affine3d \<Rightarrow> Affine3d \<Rightarrow> real" where
  "score_y ideal pose =
     (pi - arccos (dot (mat_vec (rotation pose) UnitY) (mat_vec (rotation ideal) UnitY))) / pi"

definition score_distance :: "Affine3d \<Rightarrow> GraspData \<Rightarrow> Affine3d \<Rightarrow> real" where
  "score_distance pose grasp_data object_pose =
     (let finger_length = finger_to_palm_depth grasp_data - grasp_min_depth grasp_data;
          distance = norm3 (vsub (translation pose) (translation object_pose))
      in if distance > finger_length then 0 else (finger_length - distance) / finger_length)"

text \<open>
  \<^verbatim>\<open>scoreGrasp\<close> (lines 553-598): the member is assigned first, the scores are computed
  against it, and the weighted sum (all weights 1) is divided by the number of tests. The
  result is the score and the generator after the call.
\<close>

definition scoreGrasp ::
  "GraspGenerator \<Rightarrow> Affine3d \<Rightarrow> GraspData \<Rightarrow> Affine3d \<Rightarrow> real \<times> GraspGenerator" where
  "scoreGrasp gen pose grasp_data object_pose =
     (let gen1 = gen\<lparr>ideal_grasp_pose := ideal_pose\<rparr>;
          individual_scores =
            [score_z (ideal_grasp_pose gen1) pose, score_y (ideal_grasp_pose gen1) pose,
             score_distance pose grasp_data object_pose];
          score_weights = [1, 1, 1];
          score_sum = foldl (+) 0 (map2 (*) individual_scores score_weights)
      in (score_sum / 3, gen1))"

text \<open>\<^verbatim>\<open>addGrasp\<close> (lines 480-551).\<close>

definition addGrasp ::
  "GraspGenerator \<Rightarrow> Affine3d \<Rightarrow> GraspData \<Rightarrow> Grasp list \<Rightarrow> Affine3d \<Rightarrow> Grasp list \<times> GraspGenerator" where
  "addGrasp gen pose grasp_data possible_grasps object_pose =
     (let gen1 = gen\<lparr>grasp_id := grasp_id gen + 1\<rparr>;
          (quality, gen2) = scoreGrasp gen1 pose grasp_data object_pose;
          new_grasp = \<lparr>id_number = grasp_id gen, grasp_quality = quality,
                       grasp_pose = affine_mul pose (grasp_pose_to_eef_pose grasp_data)\<rparr>
      in (possible_grasps @ [new_grasp], gen2))"

text \<open>The loop of lines 292-295.\<close>

fun addGrasps ::
  "GraspGenerator \<Rightarrow> Affine3d list \<Rightarrow> GraspData \<Rightarrow> Grasp list \<Rightarrow> Affine3d \<Rightarrow> Grasp list \<times> GraspGenerator" where
  "addGrasps gen [] grasp_data possible_grasps object_pose = (possible_grasps, gen)"
| "addGrasps gen (p # ps) grasp_data possible_grasps object_pose =
     (let (possible_grasps1, gen1) = addGrasp gen p grasp_data possible_grasps object_pose
      in addGrasps gen1 ps grasp_data possible_grasps1 object_pose)"

text \<open>
  \<^verbatim>\<open>generateCuboidAxisGrasps\<close> (lines 72-297). The source declares a \<^verbatim>\<open>bool\<close> result and
  returns none; its caller does not read it.
\<close>

definition generateCuboidAxisGrasps ::
  "GraspGenerator \<Rightarrow> Affine3d \<Rightarrow> real \<Rightarrow> real \<Rightarrow> real \<Rightarrow> grasp_axis_t \<Rightarrow> GraspData \<Rightarrow> Grasp list \<Rightarrow>
   Grasp list \<times> GraspGenerator" where
  "generateCuboidAxisGrasps gen cuboid_pose depth width height axis grasp_data possible_grasps =
     addGrasps gen (cuboidAxisPoses cuboid_pose depth width height axis grasp_data) grasp_data
       possible_grasps cuboid_pose"

section \<open>The entry points\<close>

text \<open>
  \<^verbatim>\<open>generateGrasps\<close>, the box overload (lines 619-657). The result is the returned
  boolean, the output collection and the generator after the call.
\<close>

definition generateGrasps ::
  "GraspGenerator \<Rightarrow> Affine3d \<Rightarrow> real \<Rightarrow> real \<Rightarrow> real \<Rightarrow> real \<Rightarrow> GraspData \<Rightarrow> Grasp list \<Rightarrow>
   bool \<times> Grasp list \<times> GraspGenerator" where
  "generateGrasps gen cuboid_pose depth width height max_grasp_size grasp_data possible_grasps =
     (let (pg1, gen1) =
            (if depth \<le> max_grasp_size
             then generateCuboidAxisGrasps gen cuboid_pose depth width height X_AXIS grasp_data
                    possible_grasps
             else (possible_grasps, gen));
          (pg2, gen2) =
            (if width \<le> max_grasp_size
             then generateCuboidAxisGrasps gen1 cuboid_pose depth width height Y_AXIS grasp_data pg1
             else (pg1, gen1));
          (pg3, gen3) =
            (if height \<le> max_grasp_size
             then generateCuboidAxisGrasps gen2 cuboid_pose depth width height Z_AXIS grasp_data pg2
             else (pg2, gen2))
      in (True, pg3, gen3))"

section \<open>The bounding box of a mesh\<close>

text \<open>\<^verbatim>\<open>shape_msgs::Mesh\<close>: the vertex positions and the triangles' vertex indices.\<close>

record Mesh =
  vertices :: "Vector3d list"
  triangles :: "(nat \<times> nat \<times> nat) list"

text \<open>\<^verbatim>\<open>std::numeric_limits<double>::max()\<close> and \<^verbatim>\<open>::min()\<close> (lines 803-804).\<close>

definition DBL_MAX :: real where
  "DBL_MAX = (2 - 1 / 2 ^ 52) * 2 ^ 1023"

definition DBL_MIN :: real where
  "DBL_MIN = 1 / 2 ^ 1022"

text \<open>
  The first loop over the vertices (lines 741-755): the sum of the points and the six
  second moments \<^verbatim>\<open>Ixx, Iyy, Izz, Ixy, Ixz, Iyz\<close>.
\<close>

fun moments_loop ::
  "Vector3d list \<Rightarrow> Vector3d \<times> real \<times> real \<times> real \<times> real \<times> real \<times> real \<Rightarrow>
   Vector3d \<times> real \<times> real \<times> real \<times> real \<times> real \<times> real" where
  "moments_loop [] acc = acc"
| "moments_loop (point # rest) (centroid, Ixx, Iyy, Izz, Ixy, Ixz, Iyz) =
     moments_loop rest
       (vadd centroid point,
        Ixx + (vy point * vy point + vz point * vz point),
        Iyy + (vx point * vx point + vz point * vz point),
        Izz + (vx point * vx point + vy point * vy point),
        Ixy + vx point * vy point,
        Ixz + vx point * vz point,
        Iyz + vy point * vz point)"

text \<open>The second loop (lines 807-819): the bounds of the vertices in the mesh frame.\<close>

fun bounds_loop ::
  "Affine3d \<Rightarrow> Vector3d list \<Rightarrow> Vector3d \<times> Vector3d \<Rightarrow> Vector3d \<times> Vector3d" where
  "bounds_loop world_to_mesh_transform [] acc = acc"
| "bounds_loop world_to_mesh_transform (vertex # rest) (bmin, bmax) =
     (let point = affine_apply (affine_inverse world_to_mesh_transform) vertex in
      bounds_loop world_to_mesh_transform rest
        ((if vx point < vx bmin then vx point else vx bmin,
          if vy point < vy bmin then vy point else vy bmin,
          if vz point < vz bmin then vz point else vz bmin),
         (if vx point > vx bmax then vx point else vx bmax,
          if vy point > vy bmax then vy point else vy bmax,
          if vz point > vz bmax then vz point else vz bmax)))"

text \<open>
  \<^verbatim>\<open>getBoundingBoxFromMesh\<close> (lines 727-861). \<^verbatim>\<open>Eigen::EigenSolver\<close> is a library outside
  the repository: the parameter \<open>es\<close> stands for it and gives the three eigenvector
  columns of a matrix. The result is the returned boolean and the out-parameters
  \<^verbatim>\<open>cuboid_pose\<close>, \<^verbatim>\<open>depth\<close>, \<^verbatim>\<open>width\<close>, \<^verbatim>\<open>height\<close>. The source does not check the
  vertex count: for an empty mesh it divides the centroid by zero. The quotient (NaN in
  the source, HOL's quotient here) reaches only the out-parameter \<^verbatim>\<open>cuboid_pose\<close>; the
  returned boolean and the branches taken do not depend on it, and no theorem below
  states the values of the out-parameters for an empty mesh.
\<close>

definition getBoundingBoxFromMesh ::
  "(Matrix3d \<Rightarrow> Vector3d \<times> Vector3d \<times> Vector3d) \<Rightarrow> Mesh \<Rightarrow>
   bool \<times> Affine3d \<times> real \<times> real \<times> real" where
  "getBoundingBoxFromMesh es mesh_msg =
     (let num_vertices = int (length (vertices mesh_msg));
          (centroid_sum, Ixx, Iyy, Izz, Ixy, Ixz, Iyz) =
            moments_loop (vertices mesh_msg) ((0, 0, 0), 0, 0, 0, 0, 0, 0);
          centroid = smul (1 / real_of_int num_vertices) centroid_sum;
          inertia_axis_aligned = ((Ixx, - Ixy, - Ixz), (- Ixy, Iyy, - Iyz), (- Ixz, - Iyz, Izz));
          (axis_1, axis_2, axis_3a) = es inertia_axis_aligned;
          w = vsub (cross axis_1 axis_2) axis_3a;
          epsilon = 0.000001;
          axis_3 = (if \<not> (\<bar>vx w\<bar> < epsilon \<and> \<bar>vy w\<bar> < epsilon \<and> \<bar>vz w\<bar> < epsilon)
                    then smul (- 1) axis_3a else axis_3a);
          world_to_mesh_transform =
            \<lparr>linear_part = from_cols axis_1 axis_2 axis_3, translation = centroid\<rparr>;
          (bmin, bmax) =
            bounds_loop world_to_mesh_transform (vertices mesh_msg)
              ((DBL_MAX, DBL_MAX, DBL_MAX), (DBL_MIN, DBL_MIN, DBL_MIN));
          depth = vx bmax - vx bmin;
          width = vy bmax - vy bmin;
          height = vz bmax - vz bmin;
          box_origin = ((vx bmin + vx bmax) / 2, (vy bmin + vy bmax) / 2, (vz bmin + vz bmax) / 2);
          cuboid_pose =
            world_to_mesh_transform
              \<lparr>translation := affine_apply world_to_mesh_transform box_origin\<rparr>
      in (True, cuboid_pose, depth, width, height))"

text \<open>
  \<^verbatim>\<open>generateGrasps\<close>, the mesh overload (lines 600-617): the box overload runs on the
  caller's \<^verbatim>\<open>cuboid_pose\<close> and the extents of the bounding box.
\<close>

definition generateGraspsMesh ::
  "(Matrix3d \<Rightarrow> Vector3d \<times> Vector3d \<times> Vector3d) \<Rightarrow> GraspGenerator \<Rightarrow> Mesh \<Rightarrow> Affine3d \<Rightarrow> real \<Rightarrow>
   GraspData \<Rightarrow> Grasp list \<Rightarrow> bool \<times> Grasp list \<times> GraspGenerator" where
  "generateGraspsMesh es gen mesh_msg cuboid_pose max_grasp_size grasp_data possible_grasps =
     (let (ok, mesh_pose, depth, width, height) = getBoundingBoxFromMesh es mesh_msg in
      if \<not> ok then (False, possible_grasps, gen)
      else generateGrasps gen cuboid_pose depth width height max_grasp_size grasp_data
             possible_grasps)"

section \<open>Example inputs\<close>

text \<open>
  The inputs at which the theorems below are evaluated: a generator whose member
  \<^verbatim>\<open>ideal_grasp_pose_\<close> holds the identity (the constructor does not initialise it), the
  gripper of the specification's end-to-end example (the finger depths are chosen here,
  the example leaves them open), and a gripper whose numbers are exact in binary, with a
  resolution of 45 degrees.
\<close>

definition example_generator :: GraspGenerator where
  "example_generator =
     \<lparr>verbose = False, show_prefiltered_grasps = False,
      ideal_grasp_pose = affine_identity, grasp_id = 0\<rparr>"

definition example_grasp_data :: GraspData where
  "example_grasp_data =
     \<lparr>finger_to_palm_depth = 0.1, grasp_min_depth = 0.01, angle_resolution = 0.26,
      gripper_width = 0.03, grasp_resolution = 0.01, grasp_depth_resolution = 0.01,
      grasp_pose_to_eef_pose = affine_identity\<rparr>"

definition binary_grasp_data :: GraspData where
  "binary_grasp_data =
     \<lparr>finger_to_palm_depth = 1, grasp_min_depth = 0.5, angle_resolution = 45,
      gripper_width = 0.5, grasp_resolution = 0.25, grasp_depth_resolution = 0.25,
      grasp_pose_to_eef_pose = affine_identity\<rparr>"

text \<open>
  The poses of the box \<open>0.5 \<times> 1 \<times> 2\<close> at the identity pose around the X axis, after the
  corner, face and depth steps, and the first face pose among them: on the \<open>-a\<close> face
  (\<open>y = -0.5\<close>, backed off by half the offset), with its Z axis along \<open>+y\<close>.
\<close>

definition example_face_pose :: Affine3d where
  "example_face_pose =
     \<lparr>linear_part = ((0, 1, 0), (0, 0, 1), (1, 0, 0)), translation = (0, - 0.5005, - 0.75)\<rparr>"

definition example_pre_sweep :: "Affine3d list" where
  "example_pre_sweep =
     depthGrasps binary_grasp_data
       (faceGrasps affine_identity 0.5 1 2 X_AXIS binary_grasp_data
          (cornerGrasps affine_identity 0.5 1 2 X_AXIS binary_grasp_data []))"

section \<open>Auxiliary facts\<close>

lemma vsub_smul_add: "vsub (vsub t (smul a d)) (smul b d) = vsub t (smul (a + b) d)"
  by (cases t, cases d) (simp add: algebra_simps)

lemma mat_mul_assoc: "mat_mul (mat_mul A B) C = mat_mul A (mat_mul B C)"
  by (cases A rule: prod_cases3, cases B rule: prod_cases3, cases C rule: prod_cases3)
     (auto simp add: algebra_simps)

lemma AngleAxisY_add: "mat_mul (AngleAxisY a) (AngleAxisY b) = AngleAxisY (a + b)"
  by (simp add: AngleAxisY_def cos_add sin_add algebra_simps)

lemma rotate_by_Y_add:
  "rotate_by (rotate_by p (AngleAxisY a)) (AngleAxisY b) = rotate_by p (AngleAxisY (a + b))"
  by (simp add: rotate_by_def mat_mul_assoc AngleAxisY_add)

lemma length_concat_const:
  "(\<And>x. x \<in> set xs \<Longrightarrow> length (f x) = c) \<Longrightarrow> length (concat (map f xs)) = length xs * c"
  by (induction xs) simp_all

subsection \<open>The conversion to \<^verbatim>\<open>int\<close>\<close>

lemmas int_conv = double_to_int_def int_range_def INT_MIN_def INT_MAX_def Let_def

lemma double_to_int_of_int: "int_range k \<Longrightarrow> double_to_int (real_of_int k) = k"
  by (simp add: double_to_int_def Let_def)

lemma double_to_int_nonneg: "0 \<le> x \<Longrightarrow> int_range \<lfloor>x\<rfloor> \<Longrightarrow> double_to_int x = \<lfloor>x\<rfloor>"
  by (simp add: double_to_int_def Let_def)

lemma concat_nth_uniform:
  "(\<And>x. x \<in> set xs \<Longrightarrow> length (f x) = c) \<Longrightarrow> i < length xs \<Longrightarrow> j < c \<Longrightarrow>
   concat (map f xs) ! (i * c + j) = f (xs ! i) ! j"
proof (induction xs arbitrary: i)
  case Nil
  then show ?case by simp
next
  case (Cons x xs)
  show ?case
  proof (cases i)
    case 0
    then show ?thesis using Cons.prems by (simp add: nth_append)
  next
    case (Suc i')
    have "concat (map f xs) ! (i' * c + j) = f (xs ! i') ! j"
      using Cons.prems Suc by (intro Cons.IH) simp_all
    then show ?thesis using Cons.prems Suc by (simp add: nth_append)
  qed
qed

lemma num_radial_grasps_in_range:
  "0 < angle_resolution gd \<Longrightarrow> int_range \<lceil>90 / angle_resolution gd\<rceil> \<Longrightarrow>
   num_radial_grasps gd = \<lceil>90 / angle_resolution gd\<rceil> \<and> 1 \<le> \<lceil>90 / angle_resolution gd\<rceil>"
proof -
  assume r: "0 < angle_resolution gd" and fits: "int_range \<lceil>90 / angle_resolution gd\<rceil>"
  have q: "(pi / 2) / angle_res gd = 90 / angle_resolution gd"
    by (simp add: angle_res_def)
  have "0 < 90 / angle_resolution gd" using r by simp
  then have one: "1 \<le> \<lceil>90 / angle_resolution gd\<rceil>" by linarith
  have "num_radial_grasps gd = \<lceil>90 / angle_resolution gd\<rceil>"
    using one fits by (simp only: num_radial_grasps_def q double_to_int_of_int Let_def) simp
  then show ?thesis using one by simp
qed

lemma num_depth_grasps_in_range:
  "int_range \<lceil>(finger_to_palm_depth gd - grasp_min_depth gd) / grasp_depth_resolution gd\<rceil> \<Longrightarrow>
   num_depth_grasps gd =
     max 1 \<lceil>(finger_to_palm_depth gd - grasp_min_depth gd) / grasp_depth_resolution gd\<rceil>"
  by (simp add: num_depth_grasps_def finger_depth_def double_to_int_of_int Let_def max_def)

subsection \<open>The depth loops\<close>

lemma depth_inner_eq:
  "depth_inner n df d p acc =
     acc @ map (\<lambda>k. p\<lparr>translation := vsub (translation p) (smul (real (Suc k) * df) d)\<rparr>) [0..<n]"
proof (induction n arbitrary: p acc)
  case 0
  then show ?case by simp
next
  case (Suc n)
  have "map (\<lambda>k. p\<lparr>translation := vsub (translation p) (smul (real (Suc k) * df) d)\<rparr>) [0..<Suc n]
      = p\<lparr>translation := vsub (translation p) (smul df d)\<rparr> #
        map (\<lambda>k. p\<lparr>translation := vsub (translation p) (smul (real (Suc (Suc k)) * df) d)\<rparr>) [0..<n]"
    by (simp only: upt_conv_Cons[of 0 "Suc n"] map_Suc_upt[symmetric] list.map map_map o_def) simp
  then show ?case
    by (simp add: Suc.IH vsub_smul_add algebra_simps)
qed

lemma depth_outer_eq:
  "i \<le> n \<Longrightarrow> n \<le> length ps \<Longrightarrow>
   depth_outer i n nd df ps =
     ps @ concat (map (\<lambda>p. map (\<lambda>k. p\<lparr>translation :=
            vsub (translation p) (smul (real (Suc k) * df) (mat_vec (rotation p) UnitZ))\<rparr>)
          [0..<nat nd]) (drop i (take n ps)))"
proof (induction i n nd df ps rule: depth_outer.induct)
  case (1 i n nd df ps)
  let ?F = "\<lambda>p. map (\<lambda>k. p\<lparr>translation :=
            vsub (translation p) (smul (real (Suc k) * df) (mat_vec (rotation p) UnitZ))\<rparr>)
          [0..<nat nd]"
  show ?case
  proof (cases "i < n")
    case True
    have len: "i < length (take n ps)" using True "1.prems" by simp
    have step: "depth_outer i n nd df ps = depth_outer (Suc i) n nd df (ps @ ?F (ps ! i))"
      using True by (subst depth_outer.simps) (simp add: depth_inner_eq)
    have "depth_outer (Suc i) n nd df (ps @ ?F (ps ! i)) =
        (ps @ ?F (ps ! i)) @ concat (map ?F (drop (Suc i) (take n (ps @ ?F (ps ! i)))))"
      using True "1.prems" "1.IH"[OF True] by (simp add: depth_inner_eq)
    also have "\<dots> = ps @ concat (map ?F ((take n ps) ! i # drop (Suc i) (take n ps)))"
      using True "1.prems" by simp
    also have "(take n ps) ! i # drop (Suc i) (take n ps) = drop i (take n ps)"
      using len by (rule Cons_nth_drop_Suc)
    finally show ?thesis using step by simp
  next
    case False
    then have "i = n" using "1.prems" by simp
    then show ?thesis by (subst depth_outer.simps) simp
  qed
qed

lemma depthGrasps_eq:
  "depthGrasps gd ps =
     ps @ concat (map (\<lambda>p. map (\<lambda>k. p\<lparr>translation :=
            vsub (translation p)
              (smul (real (Suc k) * delta_f gd) (mat_vec (rotation p) UnitZ))\<rparr>)
          [0..<nat (num_depth_grasps gd)]) ps)"
  by (simp add: depthGrasps_def depth_outer_eq)

lemma length_depthGrasps:
  "length (depthGrasps gd ps) = length ps * (1 + nat (num_depth_grasps gd))"
  by (simp add: depthGrasps_eq length_concat_const)

lemma num_depth_grasps_pos: "0 < num_depth_grasps gd"
  by (simp add: num_depth_grasps_def Let_def)

subsection \<open>The loop of the grasps in both directions\<close>


subsection \<open>The corner and face helpers\<close>

lemma corner_loop_eq:
  "corner_loop n da p acc = acc @ map (\<lambda>k. rotate_by p (AngleAxisY (real (Suc k) * da))) [0..<n]"
proof (induction n arbitrary: p acc)
  case 0
  then show ?case by simp
next
  case (Suc n)
  have "map (\<lambda>k. rotate_by p (AngleAxisY (real (Suc k) * da))) [0..<Suc n]
      = rotate_by p (AngleAxisY da) #
        map (\<lambda>k. rotate_by p (AngleAxisY (real (Suc (Suc k)) * da))) [0..<n]"
    by (simp only: upt_conv_Cons[of 0 "Suc n"] map_Suc_upt[symmetric] list.map map_map o_def) simp
  then show ?case
    by (simp add: Suc.IH rotate_by_Y_add algebra_simps)
qed

lemma vadd_smul_add: "vadd (vadd t (smul a d)) (smul b d) = vadd t (smul (a + b) d)"
  by (cases t, cases d) (simp add: algebra_simps)

lemma smul_one: "smul 1 d = d"
  by (cases d) simp

lemma face_loop_eq:
  "face_loop n delta p acc =
     acc @ map (\<lambda>k. p\<lparr>translation := vadd (translation p) (smul (real (Suc k)) delta)\<rparr>) [0..<n]"
proof (induction n arbitrary: p acc)
  case 0
  then show ?case by simp
next
  case (Suc n)
  have "map (\<lambda>k. p\<lparr>translation := vadd (translation p) (smul (real (Suc k)) delta)\<rparr>) [0..<Suc n]
      = p\<lparr>translation := vadd (translation p) delta\<rparr> #
        map (\<lambda>k. p\<lparr>translation := vadd (translation p) (smul (real (Suc (Suc k))) delta)\<rparr>) [0..<n]"
    by (simp only: upt_conv_Cons[of 0 "Suc n"] map_Suc_upt[symmetric] list.map map_map o_def)
       (simp add: smul_one)
  moreover have "vadd (vadd (translation p) delta) (smul (1 + real k) delta) =
      vadd (translation p) (smul (2 + real k) delta)" for k
    using vadd_smul_add[of "translation p" 1 delta "1 + real k"] by (simp add: smul_one)
  ultimately show ?case
    by (simp add: Suc.IH translate_def)
qed

lemma addCornerGraspsHelper_eq:
  "addCornerGraspsHelper pose angles shift cr n acc =
     acc @ map (\<lambda>k. rotate_by (aligned_pose pose angles cr shift)
                    (AngleAxisY (real (Suc k) * ((pi / 2) / real_of_int (n + 1))))) [0..<nat n]"
  by (simp add: addCornerGraspsHelper_def Let_def corner_loop_eq)

lemma addFaceGraspsHelper_eq:
  "addFaceGraspsHelper pose angles shift delta ar n acc =
     acc @ map (\<lambda>k. (aligned_pose pose angles ar shift)\<lparr>translation :=
                vadd (translation (aligned_pose pose angles ar shift)) (smul (real (Suc k)) delta)\<rparr>)
            [0..<nat n]"
  by (simp add: addFaceGraspsHelper_def face_loop_eq)

lemma length_cornerGrasps:
  "length (cornerGrasps cp d w h axis gd acc) = length acc + 4 * nat (num_radial_grasps gd)"
  by (simp add: cornerGrasps_def Let_def addCornerGraspsHelper_eq)

lemma num_radial_grasps_pos: "0 < num_radial_grasps gd"
  by (simp add: num_radial_grasps_def Let_def)

lemma faceGrasps_eq:
  "faceGrasps cp d w h axis gd acc =
    (let la = length_along_a axis d w h;
         lb = length_along_b axis d w h;
         da = a_dir axis cp;
         db = b_dir axis cp;
         nb = nat (num_grasps_along lb gd);
         delta_a = delta_along la gd;
         delta_b = delta_along lb gd;
         a_translation =
           vsub (vsub (vneg (smul (0.5 * (la + offset)) da))
                      (smul (0.5 * (lb - gripper_width gd)) db))
                (smul delta_b db);
         b_translation =
           vsub (vsub (smul (- 0.5 * (la - gripper_width gd)) da)
                      (smul delta_a da))
                (smul (0.5 * (lb + offset)) db);
         row = (\<lambda>shift delta ar.
           map (\<lambda>k. (aligned_pose cp (rotation_angles axis) ar shift)\<lparr>translation :=
                  vadd (translation (aligned_pose cp (rotation_angles axis) ar shift))
                    (smul (real (Suc k)) delta)\<rparr>)
             [0..<nb])
     in acc @ row a_translation (smul delta_b db) 0
          @ row (vneg b_translation) (smul (- delta_a) da) (- pi / 2)
          @ row (vneg a_translation) (smul (- delta_b) db) pi
          @ row b_translation (smul delta_a da) (pi / 2))"
  by (simp add: faceGrasps_def Let_def addFaceGraspsHelper_eq)

lemma length_faceGrasps:
  "length (faceGrasps cp d w h axis gd acc) =
     length acc + 4 * nat (num_grasps_along (length_along_b axis d w h) gd)"
  by (simp add: faceGrasps_def Let_def addFaceGraspsHelper_eq)

subsection \<open>The variable-angle loops\<close>

lemma rotate_by_Y_zero: "rotate_by p (AngleAxisY 0) = p"
proof -
  have "mat_mul A (AngleAxisY 0) = A" for A
    by (cases A rule: prod_cases3) (auto simp add: AngleAxisY_def)
  then show ?thesis by (simp add: rotate_by_def)
qed

lemma sweep_loop_acc_aux:
  "nat (mx - it) = n \<Longrightarrow>
   sweep_loop cp d w h gd st mx p it acc = acc @ sweep_loop cp d w h gd st mx p it []"
proof (induction n arbitrary: p it acc)
  case 0
  then have "it + 1 > mx" by simp
  then show ?case
    by (subst sweep_loop.simps, subst (2) sweep_loop.simps) simp
next
  case (Suc n)
  then have le: "\<not> it + 1 > mx" and n: "nat (mx - (it + 1)) = n" by simp_all
  show ?case
  proof (cases "graspIntersectionHelper cp d w h p gd")
    case True
    have a: "sweep_loop cp d w h gd st mx p it acc =
        sweep_loop cp d w h gd st mx (rotate_by p (AngleAxisY st)) (it + 1) (acc @ [p])"
      using True le by (subst sweep_loop.simps) simp
    have b: "sweep_loop cp d w h gd st mx (rotate_by p (AngleAxisY st)) (it + 1) (acc @ [p]) =
        (acc @ [p]) @ sweep_loop cp d w h gd st mx (rotate_by p (AngleAxisY st)) (it + 1) []"
      by (rule Suc.IH[OF n])
    have c: "sweep_loop cp d w h gd st mx p it [] =
        sweep_loop cp d w h gd st mx (rotate_by p (AngleAxisY st)) (it + 1) [p]"
      using True le by (subst sweep_loop.simps) simp
    have e: "sweep_loop cp d w h gd st mx (rotate_by p (AngleAxisY st)) (it + 1) [p] =
        [p] @ sweep_loop cp d w h gd st mx (rotate_by p (AngleAxisY st)) (it + 1) []"
      by (rule Suc.IH[OF n])
    show ?thesis by (simp only: a b c e append_assoc)
  next
    case False
    then show ?thesis
      by (subst sweep_loop.simps, subst (2) sweep_loop.simps) simp
  qed
qed

lemma sweep_loop_acc:
  "sweep_loop cp d w h gd st mx p it acc = acc @ sweep_loop cp d w h gd st mx p it []"
  by (rule sweep_loop_acc_aux[OF refl])

lemma sweep_loop_shape_aux:
  "nat (mx - it) = n \<Longrightarrow>
   \<exists>m. m \<le> n + 1 \<and>
     sweep_loop cp d w h gd st mx p it [] =
       map (\<lambda>k. rotate_by p (AngleAxisY (real k * st))) [0..<m] \<and>
     list_all (\<lambda>q. graspIntersectionHelper cp d w h q gd)
       (map (\<lambda>k. rotate_by p (AngleAxisY (real k * st))) [0..<m]) \<and>
     (m = n + 1 \<or> \<not> graspIntersectionHelper cp d w h (rotate_by p (AngleAxisY (real m * st))) gd)"
proof (induction n arbitrary: p it)
  case 0
  then have gt: "it + 1 > mx" by simp
  show ?case
  proof (cases "graspIntersectionHelper cp d w h p gd")
    case True
    then have "sweep_loop cp d w h gd st mx p it [] = [p]"
      using gt by (subst sweep_loop.simps) simp
    then show ?thesis using True
      by (intro exI[of _ 1]) (simp add: rotate_by_Y_zero)
  next
    case False
    then have "sweep_loop cp d w h gd st mx p it [] = []"
      by (subst sweep_loop.simps) simp
    then show ?thesis using False
      by (intro exI[of _ 0]) (simp add: rotate_by_Y_zero)
  qed
next
  case (Suc n)
  then have le: "\<not> it + 1 > mx" and n: "nat (mx - (it + 1)) = n" by simp_all
  show ?case
  proof (cases "graspIntersectionHelper cp d w h p gd")
    case True
    let ?p' = "rotate_by p (AngleAxisY st)"
    from Suc.IH[OF n, of ?p'] obtain m where m: "m \<le> n + 1"
      and eq: "sweep_loop cp d w h gd st mx ?p' (it + 1) [] =
         map (\<lambda>k. rotate_by ?p' (AngleAxisY (real k * st))) [0..<m]"
      and hits: "list_all (\<lambda>q. graspIntersectionHelper cp d w h q gd)
         (map (\<lambda>k. rotate_by ?p' (AngleAxisY (real k * st))) [0..<m])"
      and stop: "m = n + 1 \<or>
         \<not> graspIntersectionHelper cp d w h (rotate_by ?p' (AngleAxisY (real m * st))) gd"
      by blast
    have shift: "rotate_by ?p' (AngleAxisY (real k * st)) =
        rotate_by p (AngleAxisY (real (Suc k) * st))" for k
      by (simp add: rotate_by_Y_add algebra_simps)
    have unfold: "sweep_loop cp d w h gd st mx p it [] =
        p # sweep_loop cp d w h gd st mx ?p' (it + 1) []"
      using True le sweep_loop_acc[of cp d w h gd st mx ?p' "it + 1" "[p]"]
      by (subst sweep_loop.simps) simp
    have maps: "map (\<lambda>k. rotate_by p (AngleAxisY (real k * st))) [0..<Suc m] =
        p # map (\<lambda>k. rotate_by p (AngleAxisY (real (Suc k) * st))) [0..<m]"
      by (simp only: upt_conv_Cons[of 0 "Suc m"] map_Suc_upt[symmetric] list.map map_map o_def)
         (simp add: rotate_by_Y_zero)
    show ?thesis
    proof (intro exI[of _ "Suc m"] conjI)
      show "Suc m \<le> Suc n + 1" using m by simp
      show "sweep_loop cp d w h gd st mx p it [] =
          map (\<lambda>k. rotate_by p (AngleAxisY (real k * st))) [0..<Suc m]"
        using unfold eq by (simp only: maps shift)
      show "list_all (\<lambda>q. graspIntersectionHelper cp d w h q gd)
          (map (\<lambda>k. rotate_by p (AngleAxisY (real k * st))) [0..<Suc m])"
        using hits True by (simp only: maps shift list.pred_inject)
      show "Suc m = Suc n + 1 \<or>
          \<not> graspIntersectionHelper cp d w h (rotate_by p (AngleAxisY (real (Suc m) * st))) gd"
        using stop by (simp only: shift) simp
    qed
  next
    case False
    then have "sweep_loop cp d w h gd st mx p it [] = []"
      by (subst sweep_loop.simps) simp
    then show ?thesis using False
      by (intro exI[of _ 0]) (simp add: rotate_by_Y_zero)
  qed
qed

lemma sweep_base_eq:
  "sweep_base cp d w h gd base acc =
     acc @ sweep_loop cp d w h gd (angle_res gd) (max_iterations_of gd)
             (rotate_by base (AngleAxisY (angle_res gd))) 0 []
         @ sweep_loop cp d w h gd (- angle_res gd) (max_iterations_of gd)
             (rotate_by base (AngleAxisY (- angle_res gd))) 0 []"
proof -
  let ?pos = "sweep_loop cp d w h gd (angle_res gd) (max_iterations_of gd)
             (rotate_by base (AngleAxisY (angle_res gd))) 0"
  let ?neg = "sweep_loop cp d w h gd (- angle_res gd) (max_iterations_of gd)
             (rotate_by base (AngleAxisY (- angle_res gd))) 0"
  have "sweep_base cp d w h gd base acc = ?neg (?pos acc)"
    by (simp add: sweep_base_def)
  also have "\<dots> = ?pos acc @ ?neg []"
    by (rule sweep_loop_acc)
  also have "?pos acc = acc @ ?pos []"
    by (rule sweep_loop_acc)
  finally show ?thesis by simp
qed

lemma sweep_base_acc:
  "sweep_base cp d w h gd base acc = acc @ sweep_base cp d w h gd base []"
  using sweep_base_eq[of cp d w h gd base acc] sweep_base_eq[of cp d w h gd base "[]"] by simp

lemma sweep_outer_eq:
  "i \<le> n \<Longrightarrow> n \<le> length ps \<Longrightarrow>
   sweep_outer cp d w h gd i n ps =
     ps @ concat (map (\<lambda>base. sweep_base cp d w h gd base []) (drop i (take n ps)))"
proof (induction cp d w h gd i n ps rule: sweep_outer.induct)
  case (1 cp d w h gd i n ps)
  let ?S = "\<lambda>base. sweep_base cp d w h gd base []"
  show ?case
  proof (cases "i < n")
    case True
    have len: "i < length (take n ps)" using True "1.prems" by simp
    have step: "sweep_outer cp d w h gd i n ps =
        sweep_outer cp d w h gd (Suc i) n (ps @ ?S (ps ! i))"
      using True sweep_base_acc[of cp d w h gd "ps ! i" ps]
      by (subst sweep_outer.simps) simp
    have "sweep_outer cp d w h gd (Suc i) n (sweep_base cp d w h gd (ps ! i) ps) =
        sweep_base cp d w h gd (ps ! i) ps @
        concat (map ?S (drop (Suc i) (take n (sweep_base cp d w h gd (ps ! i) ps))))"
      using True "1.prems" sweep_base_acc[of cp d w h gd "ps ! i" ps]
      by (intro "1.IH") simp_all
    then have "sweep_outer cp d w h gd (Suc i) n (ps @ ?S (ps ! i)) =
        (ps @ ?S (ps ! i)) @ concat (map ?S (drop (Suc i) (take n (ps @ ?S (ps ! i)))))"
      using sweep_base_acc[of cp d w h gd "ps ! i" ps] by simp
    also have "\<dots> = ps @ concat (map ?S ((take n ps) ! i # drop (Suc i) (take n ps)))"
      using True "1.prems" by simp
    also have "(take n ps) ! i # drop (Suc i) (take n ps) = drop i (take n ps)"
      using len by (rule Cons_nth_drop_Suc)
    finally show ?thesis using step by simp
  next
    case False
    then have "i = n" using "1.prems" by simp
    then show ?thesis by (subst sweep_outer.simps) simp
  qed
qed

lemma variableAngleGrasps_eq:
  "variableAngleGrasps cp d w h gd nc ps =
     ps @ concat (map (\<lambda>base. sweep_base cp d w h gd base []) (drop nc ps))"
proof (cases "nc \<le> length ps")
  case True
  then show ?thesis by (simp add: variableAngleGrasps_def sweep_outer_eq)
next
  case False
  then show ?thesis
    by (subst variableAngleGrasps_def, subst sweep_outer.simps) simp
qed

lemma sweep_direction:
  "sweep_loop cp d w h gd st mx (rotate_by base (AngleAxisY st)) 0 [] =
     map (\<lambda>k. rotate_by base (AngleAxisY (real (Suc k) * st)))
       [0..<length (sweep_loop cp d w h gd st mx (rotate_by base (AngleAxisY st)) 0 [])] \<and>
   list_all (\<lambda>q. graspIntersectionHelper cp d w h q gd)
     (sweep_loop cp d w h gd st mx (rotate_by base (AngleAxisY st)) 0 []) \<and>
   length (sweep_loop cp d w h gd st mx (rotate_by base (AngleAxisY st)) 0 []) \<le> nat mx + 1 \<and>
   (length (sweep_loop cp d w h gd st mx (rotate_by base (AngleAxisY st)) 0 []) = nat mx + 1 \<or>
    \<not> graspIntersectionHelper cp d w h
        (rotate_by base (AngleAxisY (real (Suc (length
           (sweep_loop cp d w h gd st mx (rotate_by base (AngleAxisY st)) 0 []))) * st))) gd)"
proof -
  let ?p = "rotate_by base (AngleAxisY st)"
  let ?xs = "sweep_loop cp d w h gd st mx ?p 0 []"
  have n: "nat (mx - 0) = nat mx" by simp
  from sweep_loop_shape_aux[OF n, of cp d w h gd st ?p] obtain m where m: "m \<le> nat mx + 1"
    and eq: "?xs = map (\<lambda>k. rotate_by ?p (AngleAxisY (real k * st))) [0..<m]"
    and hits: "list_all (\<lambda>q. graspIntersectionHelper cp d w h q gd)
       (map (\<lambda>k. rotate_by ?p (AngleAxisY (real k * st))) [0..<m])"
    and stop: "m = nat mx + 1 \<or>
       \<not> graspIntersectionHelper cp d w h (rotate_by ?p (AngleAxisY (real m * st))) gd"
    by blast
  have shift: "rotate_by ?p (AngleAxisY (real k * st)) =
      rotate_by base (AngleAxisY (real (Suc k) * st))" for k
    by (simp add: rotate_by_Y_add algebra_simps)
  have len: "length ?xs = m" using eq by simp
  have eq': "?xs = map (\<lambda>k. rotate_by base (AngleAxisY (real (Suc k) * st))) [0..<m]"
    using eq by (simp only: shift)
  have stop': "m = nat mx + 1 \<or>
       \<not> graspIntersectionHelper cp d w h (rotate_by base (AngleAxisY (real (Suc m) * st))) gd"
    using stop by (simp only: shift)
  have hits': "list_all (\<lambda>q. graspIntersectionHelper cp d w h q gd) ?xs"
    using hits eq by simp
  show ?thesis
    using eq' hits' m stop' by (simp only: len) simp
qed

lemma sweep_base_hits:
  "list_all (\<lambda>q. graspIntersectionHelper cp d w h q gd) (sweep_base cp d w h gd base [])"
  using sweep_direction[of cp d w h gd "angle_res gd" "max_iterations_of gd" base]
    sweep_direction[of cp d w h gd "- angle_res gd" "max_iterations_of gd" base]
  by (simp add: sweep_base_eq)

lemma variableAngleGrasps_hits:
  "list_all (\<lambda>q. graspIntersectionHelper cp d w h q gd)
     (drop (length ps) (variableAngleGrasps cp d w h gd nc ps))"
  using sweep_base_hits[of cp d w h gd]
  by (simp add: variableAngleGrasps_eq list_all_iff)

lemma max_iterations_of_pos:
  "0 < angle_resolution gd \<Longrightarrow> int_range (\<lfloor>180 / angle_resolution gd\<rfloor> + 1) \<Longrightarrow>
   max_iterations_of gd = \<lfloor>180 / angle_resolution gd\<rfloor> + 1"
proof -
  assume r: "0 < angle_resolution gd"
    and fits: "int_range (\<lfloor>180 / angle_resolution gd\<rfloor> + 1)"
  have "pi / angle_res gd = 180 / angle_resolution gd"
    by (simp add: angle_res_def)
  moreover have "0 \<le> 180 / angle_resolution gd + 1" using r by simp
  moreover have "\<lfloor>180 / angle_resolution gd + 1\<rfloor> = \<lfloor>180 / angle_resolution gd\<rfloor> + 1"
    by simp
  ultimately show ?thesis
    using fits by (simp add: max_iterations_of_def double_to_int_nonneg)
qed


lemma sweep_loop_head:
  "graspIntersectionHelper cp d w h p gd \<Longrightarrow>
   \<exists>rest. sweep_loop cp d w h gd st mx p it [] = p # rest"
  using sweep_loop_acc[of cp d w h gd st mx "rotate_by p (AngleAxisY st)" "it + 1" "[p]"]
  by (subst sweep_loop.simps) simp

lemma variableAngleGrasps_first:
  assumes "nc < length ps"
    and "graspIntersectionHelper cp d w h (rotate_by (ps ! nc) (AngleAxisY (angle_res gd))) gd"
  shows "length ps < length (variableAngleGrasps cp d w h gd nc ps) \<and>
    variableAngleGrasps cp d w h gd nc ps ! length ps =
      rotate_by (ps ! nc) (AngleAxisY (angle_res gd))"
proof -
  from sweep_loop_head[OF assms(2)] obtain rest where
    "sweep_loop cp d w h gd (angle_res gd) (max_iterations_of gd)
       (rotate_by (ps ! nc) (AngleAxisY (angle_res gd))) 0 [] =
     rotate_by (ps ! nc) (AngleAxisY (angle_res gd)) # rest"
    by blast
  then have S: "\<exists>rest'. sweep_base cp d w h gd (ps ! nc) [] =
      rotate_by (ps ! nc) (AngleAxisY (angle_res gd)) # rest'"
    by (simp add: sweep_base_eq)
  have "drop nc ps = ps ! nc # drop (Suc nc) ps"
    using assms(1) by (simp add: Cons_nth_drop_Suc)
  then show ?thesis using S
    by (auto simp add: variableAngleGrasps_eq)
qed

subsection \<open>The example box\<close>

lemma sqrt2_bounds: "7 / 5 < sqrt 2 \<and> sqrt 2 < 3 / 2"
proof
  show "7 / 5 < sqrt 2" by (rule real_less_rsqrt) (simp add: power2_eq_square)
  show "sqrt 2 < 3 / 2" by (rule real_less_lsqrt) (simp_all add: power2_eq_square)
qed

lemma binary_angle_res: "angle_res binary_grasp_data = pi / 4"
  by (simp add: angle_res_def binary_grasp_data_def)

lemma hit_example:
  "graspIntersectionHelper affine_identity 0.5 1 2
     (rotate_by example_face_pose (AngleAxisY (pi / 4))) binary_grasp_data"
proof -
  have f: "finger_to_palm_depth binary_grasp_data = 1"
    by (simp add: binary_grasp_data_def)
  have inv: "affine_inverse affine_identity = affine_identity"
    by (simp add: affine_inverse_def affine_identity_def mat_identity_def)
  show ?thesis
    using sqrt2_bounds
    by (simp add: graspIntersectionHelper_def Let_def f inv rotate_by_def AngleAxisY_def
          cos_45 sin_45 rotation_def UnitZ_def affine_apply_def example_face_pose_def)
       (simp add: affine_identity_def mat_identity_def faceCrossing_def intersectionHelper_def
          Let_def)
qed

lemma example_corners_length:
  "length (cornerGrasps cp d w h axis binary_grasp_data []) = 8"
proof -
  have "num_radial_grasps binary_grasp_data = 2"
    by (simp add: num_radial_grasps_def angle_res_def binary_grasp_data_def int_conv)
  then show ?thesis by (simp add: length_cornerGrasps)
qed

lemma example_first_face_pose:
  "8 < length example_pre_sweep \<and> example_pre_sweep ! 8 = example_face_pose"
proof -
  let ?corners = "cornerGrasps affine_identity 0.5 1 2 X_AXIS binary_grasp_data []"
  let ?faces = "faceGrasps affine_identity 0.5 1 2 X_AXIS binary_grasp_data ?corners"
  have gw: "gripper_width binary_grasp_data = 1 / 2"
    by (simp add: binary_grasp_data_def)
  have gr: "grasp_resolution binary_grasp_data = 1 / 4"
    by (simp add: binary_grasp_data_def)
  have nb: "num_grasps_along 2 binary_grasp_data = 7"
    by (simp add: num_grasps_along_def gw gr int_conv)
  have db: "b_dir X_AXIS affine_identity = (0, 0, 1)"
    by (simp add: b_dir_def normalized_def norm3_def rotation_def affine_identity_def
          mat_identity_def UnitZ_def)
  have da: "a_dir X_AXIS affine_identity = (0, 1, 0)"
    by (simp add: a_dir_def normalized_def norm3_def rotation_def affine_identity_def
          mat_identity_def UnitY_def)
  have delb: "delta_along 2 binary_grasp_data = 1 / 4"
    by (simp add: delta_along_def nb gw)
  have lf: "length ?faces = 36"
    by (simp add: length_faceGrasps example_corners_length length_along_b_def nb)
  have "?faces ! 8 = example_face_pose"
    by (simp add: faceGrasps_eq Let_def nth_append example_corners_length length_along_a_def
          length_along_b_def nb da db delb gw offset_def aligned_pose_def rotation_angles_def
          translate_def rotate_by_def)
       (simp add: affine_identity_def mat_identity_def AngleAxisX_def AngleAxisY_def
          AngleAxisZ_def example_face_pose_def)
  moreover have "example_pre_sweep ! 8 = ?faces ! 8"
    using lf by (simp add: example_pre_sweep_def depthGrasps_eq nth_append)
  moreover have "8 < length example_pre_sweep"
    using lf by (simp add: example_pre_sweep_def length_depthGrasps)
  ultimately show ?thesis by simp
qed

lemma example_first_depth_pose:
  "example_pre_sweep ! 52 = example_face_pose\<lparr>translation := (0, - 0.7505, - 0.75)\<rparr>"
proof -
  let ?corners = "cornerGrasps affine_identity 0.5 1 2 X_AXIS binary_grasp_data []"
  let ?faces = "faceGrasps affine_identity 0.5 1 2 X_AXIS binary_grasp_data ?corners"
  let ?F = "\<lambda>p. map (\<lambda>k. p\<lparr>translation :=
            vsub (translation p)
              (smul (real (Suc k) * delta_f binary_grasp_data) (mat_vec (rotation p) UnitZ))\<rparr>)
          [0..<nat (num_depth_grasps binary_grasp_data)]"
  have gw: "gripper_width binary_grasp_data = 1 / 2"
    by (simp add: binary_grasp_data_def)
  have gr: "grasp_resolution binary_grasp_data = 1 / 4"
    by (simp add: binary_grasp_data_def)
  have nb: "num_grasps_along 2 binary_grasp_data = 7"
    by (simp add: num_grasps_along_def gw gr int_conv)
  have lf: "length ?faces = 36"
    by (simp add: length_faceGrasps example_corners_length length_along_b_def nb)
  have nd: "num_depth_grasps binary_grasp_data = 2"
    by (simp add: num_depth_grasps_def finger_depth_def binary_grasp_data_def int_conv)
  have df: "delta_f binary_grasp_data = 1 / 4"
    by (simp add: delta_f_def nd) (simp add: finger_depth_def binary_grasp_data_def)
  have f8: "?faces ! 8 = example_face_pose"
    using example_first_face_pose lf
    by (simp add: example_pre_sweep_def depthGrasps_eq nth_append)
  have e: "example_pre_sweep = ?faces @ concat (map ?F ?faces)"
    unfolding example_pre_sweep_def by (rule depthGrasps_eq)
  have "example_pre_sweep ! (length ?faces + 16) = concat (map ?F ?faces) ! 16"
    by (subst e) (rule nth_append_length_plus)
  then have a: "example_pre_sweep ! 52 = concat (map ?F ?faces) ! 16"
    using lf by simp
  have "concat (map ?F ?faces) ! (8 * 2 + 0) = ?F (?faces ! 8) ! 0"
    using lf by (intro concat_nth_uniform) (simp_all add: nd)
  then have b: "concat (map ?F ?faces) ! 16 = ?F (?faces ! 8) ! 0"
    by simp
  have c: "?F (?faces ! 8) ! 0 = example_face_pose\<lparr>translation := (0, - 0.7505, - 0.75)\<rparr>"
    unfolding f8 by (simp add: nd df) (simp add: example_face_pose_def rotation_def UnitZ_def)
  show ?thesis using a b c by simp
qed

subsection \<open>The scores and the bounding box\<close>

lemma ideal_linear_part: "linear_part ideal_pose = ((0, 0, 1), (1, 0, 0), (0, 1, 0))"
  by (simp add: ideal_pose_def rotate_by_def affine_identity_def mat_identity_def
        AngleAxisY_def AngleAxisZ_def)

lemma ideal_translation: "translation ideal_pose = (0, 0, 0)"
  by (simp add: ideal_pose_def rotate_by_def affine_identity_def)

lemma scoreGrasp_fst:
  "fst (scoreGrasp gen pose gd obj) =
     (score_z ideal_pose pose + score_y ideal_pose pose + score_distance pose gd obj) / 3"
  by (simp add: scoreGrasp_def Let_def)

lemma scoreGrasp_snd: "snd (scoreGrasp gen pose gd obj) = gen\<lparr>ideal_grasp_pose := ideal_pose\<rparr>"
  by (simp add: scoreGrasp_def Let_def)

lemma score_z_ideal: "linear_part pose = linear_part ideal_pose \<Longrightarrow> score_z ideal_pose pose = 1"
  by (simp add: score_z_def rotation_def ideal_linear_part UnitZ_def)

lemma score_y_ideal: "linear_part pose = linear_part ideal_pose \<Longrightarrow> score_y ideal_pose pose = 1"
  by (simp add: score_y_def rotation_def ideal_linear_part UnitY_def)

lemma norm3_self: "norm3 (vsub v v) = 0"
  by (cases v) (simp add: norm3_def)

lemma getBoundingBoxFromMesh_fst: "fst (getBoundingBoxFromMesh es mesh) = True"
  by (simp add: getBoundingBoxFromMesh_def Let_def split: prod.splits)

lemma generateGrasps_fst: "fst (generateGrasps gen cp d w h m gd pg) = True"
  by (simp add: generateGrasps_def Let_def split: prod.splits)

lemma generateGraspsMesh_eq:
  "generateGraspsMesh es gen mesh cp m gd pg =
     generateGrasps gen cp (fst (snd (snd (getBoundingBoxFromMesh es mesh))))
       (fst (snd (snd (snd (getBoundingBoxFromMesh es mesh)))))
       (snd (snd (snd (snd (getBoundingBoxFromMesh es mesh))))) m gd pg"
  using getBoundingBoxFromMesh_fst[of es mesh]
  by (cases "getBoundingBoxFromMesh es mesh") (simp add: generateGraspsMesh_def)

section \<open>The claims\<close>

text \<open>
  C1 as the specification states it: every pose of the angular sweep would have a
  reach-in segment that does not intersect the box. For the box \<open>0.5 \<times> 1 \<times> 2\<close> around
  the X axis and a resolution of 45 degrees the sweep emits poses, and the segment of the
  first of them (the first face pose, at index 8 after the eight corner poses, turned by
  45 degrees) intersects the box.
\<close>

theorem sweep_emits_intersecting_pose_counterexample:
  "length (cornerGrasps affine_identity 0.5 1 2 X_AXIS binary_grasp_data []) = 8 \<and>
   length example_pre_sweep <
     length (variableAngleGrasps affine_identity 0.5 1 2 binary_grasp_data 8 example_pre_sweep) \<and>
   graspIntersectionHelper affine_identity 0.5 1 2
     (variableAngleGrasps affine_identity 0.5 1 2 binary_grasp_data 8 example_pre_sweep !
        length example_pre_sweep)
     binary_grasp_data"
  using variableAngleGrasps_first[of 8 example_pre_sweep affine_identity "0.5" 1 2 binary_grasp_data]
    example_first_face_pose hit_example
  by (simp add: binary_angle_res example_corners_length)

text \<open>
  C1, amended. The resolution is positive and such that the cap plus one and the number
  of corner poses are in the range of the program's \<^verbatim>\<open>int\<close>. The sweep takes as base poses
  the poses from index \<^verbatim>\<open>num_corner_grasps\<close> on (the face poses and all depth poses; the
  corner poses at zero depth are left out) and appends its poses after the poses it is
  given. For a base pose and each of the two steps \<open>\<plusminus>angle_res\<close>, with
  \<open>angle_res = angle_resolution * \<pi>/180\<close>, the \<open>k\<close>-th pose appended is the base pose turned
  about its own Y axis by \<open>k\<close> steps; a pose is appended only while
  \<^verbatim>\<open>graspIntersectionHelper\<close> reports that its reach-in segment intersects the box, and the
  direction stops at the first orientation whose segment does not intersect the box or
  when \<open>max_iterations + 1\<close> poses were appended, where
  \<open>max_iterations = \<lfloor>180 / angle_resolution\<rfloor> + 1\<close>. Consequently the reach-in segment of
  every pose the sweep emits intersects the box.
\<close>

theorem variableAngleGrasps_keep_intersecting:
  "0 < angle_resolution gd \<Longrightarrow>
   int_range (\<lfloor>180 / angle_resolution gd\<rfloor> + 2) \<Longrightarrow>
   int_range (4 * \<lceil>90 / angle_resolution gd\<rceil>) \<Longrightarrow>
   max_iterations_of gd = \<lfloor>180 / angle_resolution gd\<rfloor> + 1 \<and>
   int_range (max_iterations_of gd + 1) \<and>
   int (length (cornerGrasps cuboid_pose depth width height axis gd [])) =
     4 * \<lceil>90 / angle_resolution gd\<rceil> \<and>
   cuboidAxisPoses cuboid_pose depth width height axis gd =
     bidirectionalGrasps
       (variableAngleGrasps cuboid_pose depth width height gd
          (length (cornerGrasps cuboid_pose depth width height axis gd []))
          (depthGrasps gd
             (faceGrasps cuboid_pose depth width height axis gd
                (cornerGrasps cuboid_pose depth width height axis gd [])))) \<and>
   variableAngleGrasps cuboid_pose depth width height gd nc ps =
     ps @ concat (map (\<lambda>b. sweep_base cuboid_pose depth width height gd b []) (drop nc ps)) \<and>
   sweep_base cuboid_pose depth width height gd base [] =
     sweep_loop cuboid_pose depth width height gd (angle_res gd) (max_iterations_of gd)
       (rotate_by base (AngleAxisY (angle_res gd))) 0 [] @
     sweep_loop cuboid_pose depth width height gd (- angle_res gd) (max_iterations_of gd)
       (rotate_by base (AngleAxisY (- angle_res gd))) 0 [] \<and>
   sweep_loop cuboid_pose depth width height gd st (max_iterations_of gd)
       (rotate_by base (AngleAxisY st)) 0 [] =
     map (\<lambda>k. rotate_by base (AngleAxisY (real (Suc k) * st)))
       [0..<length (sweep_loop cuboid_pose depth width height gd st (max_iterations_of gd)
                      (rotate_by base (AngleAxisY st)) 0 [])] \<and>
   list_all (\<lambda>q. graspIntersectionHelper cuboid_pose depth width height q gd)
     (sweep_loop cuboid_pose depth width height gd st (max_iterations_of gd)
        (rotate_by base (AngleAxisY st)) 0 []) \<and>
   length (sweep_loop cuboid_pose depth width height gd st (max_iterations_of gd)
             (rotate_by base (AngleAxisY st)) 0 []) \<le> nat (max_iterations_of gd) + 1 \<and>
   (length (sweep_loop cuboid_pose depth width height gd st (max_iterations_of gd)
              (rotate_by base (AngleAxisY st)) 0 []) = nat (max_iterations_of gd) + 1 \<or>
    \<not> graspIntersectionHelper cuboid_pose depth width height
        (rotate_by base (AngleAxisY (real (Suc (length
           (sweep_loop cuboid_pose depth width height gd st (max_iterations_of gd)
              (rotate_by base (AngleAxisY st)) 0 []))) * st))) gd) \<and>
   list_all (\<lambda>q. graspIntersectionHelper cuboid_pose depth width height q gd)
     (drop (length ps) (variableAngleGrasps cuboid_pose depth width height gd nc ps))"
proof -
  assume pos: "0 < angle_resolution gd"
    and cap: "int_range (\<lfloor>180 / angle_resolution gd\<rfloor> + 2)"
    and corners: "int_range (4 * \<lceil>90 / angle_resolution gd\<rceil>)"
  have "0 \<le> 180 / angle_resolution gd" using pos by simp
  then have fl: "0 \<le> \<lfloor>180 / angle_resolution gd\<rfloor>" by simp
  then have cap1: "int_range (\<lfloor>180 / angle_resolution gd\<rfloor> + 1)"
    using cap unfolding int_range_def INT_MIN_def INT_MAX_def by linarith
  have mx: "max_iterations_of gd = \<lfloor>180 / angle_resolution gd\<rfloor> + 1"
    by (rule max_iterations_of_pos[OF pos cap1])
  have mx1: "int_range (max_iterations_of gd + 1)"
    using cap by (simp add: mx algebra_simps)
  have "0 < 90 / angle_resolution gd" using pos by simp
  then have "1 \<le> \<lceil>90 / angle_resolution gd\<rceil>" by linarith
  then have "int_range \<lceil>90 / angle_resolution gd\<rceil>"
    using corners unfolding int_range_def INT_MIN_def INT_MAX_def by linarith
  then have nr: "num_radial_grasps gd = \<lceil>90 / angle_resolution gd\<rceil>"
    and one: "1 \<le> \<lceil>90 / angle_resolution gd\<rceil>"
    using num_radial_grasps_in_range[OF pos] by simp_all
  have nn: "int (nat \<lceil>90 / angle_resolution gd\<rceil>) = \<lceil>90 / angle_resolution gd\<rceil>"
    using one by linarith
  have "int (length (cornerGrasps cuboid_pose depth width height axis gd [])) =
     4 * int (nat \<lceil>90 / angle_resolution gd\<rceil>)"
    by (simp only: length_cornerGrasps nr list.size)
  then have lc: "int (length (cornerGrasps cuboid_pose depth width height axis gd [])) =
     4 * \<lceil>90 / angle_resolution gd\<rceil>"
    by (simp only: nn)
  have comp: "cuboidAxisPoses cuboid_pose depth width height axis gd =
     bidirectionalGrasps
       (variableAngleGrasps cuboid_pose depth width height gd
          (length (cornerGrasps cuboid_pose depth width height axis gd []))
          (depthGrasps gd
             (faceGrasps cuboid_pose depth width height axis gd
                (cornerGrasps cuboid_pose depth width height axis gd []))))"
    by (simp add: cuboidAxisPoses_def Let_def)
  have base: "sweep_base cuboid_pose depth width height gd base [] =
     sweep_loop cuboid_pose depth width height gd (angle_res gd) (max_iterations_of gd)
       (rotate_by base (AngleAxisY (angle_res gd))) 0 [] @
     sweep_loop cuboid_pose depth width height gd (- angle_res gd) (max_iterations_of gd)
       (rotate_by base (AngleAxisY (- angle_res gd))) 0 []"
    using sweep_base_eq[of cuboid_pose depth width height gd base "[]"] by simp
  show ?thesis
    using mx mx1 lc comp base
      variableAngleGrasps_eq[of cuboid_pose depth width height gd nc ps]
      sweep_direction[of cuboid_pose depth width height gd st "max_iterations_of gd" base]
      variableAngleGrasps_hits[of cuboid_pose depth width height gd ps nc]
    by blast
qed

theorem variableAngleGrasps_keep_intersecting_witness:
  "0 < angle_resolution binary_grasp_data \<and>
   int_range (\<lfloor>180 / angle_resolution binary_grasp_data\<rfloor> + 2) \<and>
   int_range (4 * \<lceil>90 / angle_resolution binary_grasp_data\<rceil>) \<and>
   max_iterations_of binary_grasp_data = 5 \<and>
   length example_pre_sweep <
     length (variableAngleGrasps affine_identity 0.5 1 2 binary_grasp_data 8 example_pre_sweep) \<and>
   list_all (\<lambda>q. graspIntersectionHelper affine_identity 0.5 1 2 q binary_grasp_data)
     (drop (length example_pre_sweep)
        (variableAngleGrasps affine_identity 0.5 1 2 binary_grasp_data 8 example_pre_sweep))"
proof -
  have r: "angle_resolution binary_grasp_data = 45"
    by (simp add: binary_grasp_data_def)
  have pos: "0 < angle_resolution binary_grasp_data"
    by (simp add: r)
  have cap: "int_range (\<lfloor>180 / angle_resolution binary_grasp_data\<rfloor> + 2)"
    by (simp add: r int_range_def INT_MIN_def INT_MAX_def)
  have corners: "int_range (4 * \<lceil>90 / angle_resolution binary_grasp_data\<rceil>)"
    by (simp add: r int_range_def INT_MIN_def INT_MAX_def)
  note T = variableAngleGrasps_keep_intersecting
      [OF pos cap corners, of affine_identity "0.5" 1 2 X_AXIS 8 example_pre_sweep
         affine_identity 0]
  have "max_iterations_of binary_grasp_data = \<lfloor>180 / angle_resolution binary_grasp_data\<rfloor> + 1"
    using T by blast
  then have mi: "max_iterations_of binary_grasp_data = 5"
    by (simp add: r)
  have hits: "list_all (\<lambda>q. graspIntersectionHelper affine_identity 0.5 1 2 q binary_grasp_data)
     (drop (length example_pre_sweep)
        (variableAngleGrasps affine_identity 0.5 1 2 binary_grasp_data 8 example_pre_sweep))"
    using T by blast
  have len: "length example_pre_sweep <
     length (variableAngleGrasps affine_identity 0.5 1 2 binary_grasp_data 8 example_pre_sweep)"
    using variableAngleGrasps_first[of 8 example_pre_sweep affine_identity "0.5" 1 2 binary_grasp_data]
      example_first_face_pose hit_example
    by (simp add: binary_angle_res)
  show ?thesis
    using pos cap corners mi hits len by simp
qed

text \<open>
  C2. A face row should hold \<open>\<lfloor>(extent - gripper_width) / grasp_resolution\<rfloor> + 1\<close> poses for
  the extent it runs along. The source computes this count for both directions and passes
  the count along \<open>b\<close> to all four rows. On the box \<open>0.5 \<times> 1 \<times> 2\<close> around the X axis, with
  gripper width \<open>0.5\<close> and resolution \<open>0.25\<close>, the count along \<open>a\<close> (extent 1) is 3 and the
  count along \<open>b\<close> (extent 2) is 7; the four rows hold 28 poses, and the second row, which
  runs along \<open>a\<close> on the \<open>+b\<close> face, holds 7 poses spaced \<open>0.25\<close> from \<open>0.25\<close> down to
  \<open>-1.25\<close>, beyond the face's half extent \<open>0.5\<close>.
\<close>

theorem faceGrasps_b_faces_use_b_count:
  "\<lfloor>(1 - gripper_width binary_grasp_data) / grasp_resolution binary_grasp_data\<rfloor> + 1 = 3 \<and>
   \<lfloor>(2 - gripper_width binary_grasp_data) / grasp_resolution binary_grasp_data\<rfloor> + 1 = 7 \<and>
   length (faceGrasps affine_identity 0.5 1 2 X_AXIS binary_grasp_data []) = 28 \<and>
   map translation
     (take 7 (drop 7 (faceGrasps affine_identity 0.5 1 2 X_AXIS binary_grasp_data []))) =
     map (\<lambda>k. (0, 1 / 4 - real k / 4, 1.0005)) [0..<7]"
proof -
  have gw: "gripper_width binary_grasp_data = 1 / 2"
    by (simp add: binary_grasp_data_def)
  have gr: "grasp_resolution binary_grasp_data = 1 / 4"
    by (simp add: binary_grasp_data_def)
  have na: "num_grasps_along 1 binary_grasp_data = 3"
    by (simp add: num_grasps_along_def gw gr int_conv)
  have nb: "num_grasps_along 2 binary_grasp_data = 7"
    by (simp add: num_grasps_along_def gw gr int_conv)
  have da: "a_dir X_AXIS affine_identity = (0, 1, 0)"
    by (simp add: a_dir_def normalized_def norm3_def rotation_def affine_identity_def
          mat_identity_def UnitY_def)
  have db: "b_dir X_AXIS affine_identity = (0, 0, 1)"
    by (simp add: b_dir_def normalized_def norm3_def rotation_def affine_identity_def
          mat_identity_def UnitZ_def)
  have dela: "delta_along 1 binary_grasp_data = 1 / 4"
    by (simp add: delta_along_def na gw)
  have delb: "delta_along 2 binary_grasp_data = 1 / 4"
    by (simp add: delta_along_def nb gw)
  have tr: "translation affine_identity = (0, 0, 0)"
    by (simp add: affine_identity_def)
  have counts: "\<lfloor>(1 - gripper_width binary_grasp_data) / grasp_resolution binary_grasp_data\<rfloor> + 1 = 3"
    "\<lfloor>(2 - gripper_width binary_grasp_data) / grasp_resolution binary_grasp_data\<rfloor> + 1 = 7"
    by (simp_all add: gw gr)
  have len: "length (faceGrasps affine_identity 0.5 1 2 X_AXIS binary_grasp_data []) = 28"
    by (simp add: length_faceGrasps length_along_b_def nb)
  have row: "map translation
     (take 7 (drop 7 (faceGrasps affine_identity 0.5 1 2 X_AXIS binary_grasp_data []))) =
     map (\<lambda>k. (0, 1 / 4 - real k / 4, 1.0005)) [0..<7]"
    by (simp add: faceGrasps_eq Let_def length_along_a_def length_along_b_def da db na nb
          dela delb gw tr aligned_pose_def translate_def rotate_by_def offset_def field_simps)
  show ?thesis using counts len row by blast
qed

text \<open>
  C3 as the specification states it, with the resolution read in radians: for the
  specification's example resolution \<open>0.26\<close> the four fans would hold
  \<open>4 * max 1 \<lceil>(\<pi>/2) / 0.26\<rceil>\<close> poses. The source reads the resolution in degrees and
  produces \<open>4 * 347\<close>.
\<close>

theorem corner_count_radians_counterexample:
  "length (cornerGrasps affine_identity 0.04 0.06 0.08 X_AXIS example_grasp_data []) \<noteq>
     4 * nat (max 1 \<lceil>(pi / 2) / angle_resolution example_grasp_data\<rceil>)"
proof -
  have n: "num_radial_grasps example_grasp_data = 347"
    by (simp add: num_radial_grasps_def angle_res_def example_grasp_data_def int_conv)
  have "(pi / 2) / angle_resolution example_grasp_data \<le> real_of_int 8"
    using pi_less_4 by (simp add: example_grasp_data_def)
  then have "\<lceil>(pi / 2) / angle_resolution example_grasp_data\<rceil> \<le> 8"
    by (rule ceiling_le)
  then have "4 * nat (max 1 \<lceil>(pi / 2) / angle_resolution example_grasp_data\<rceil>) \<le> 32"
    by linarith
  moreover have
    "length (cornerGrasps affine_identity 0.04 0.06 0.08 X_AXIS example_grasp_data []) = 1388"
    by (simp add: length_cornerGrasps n)
  ultimately show ?thesis by linarith
qed

text \<open>
  C3, amended. The resolution is in degrees: the source converts it by \<open>\<pi>/180\<close>. For a
  positive resolution whose count plus one is in the range of the program's \<^verbatim>\<open>int\<close>, the
  count is \<open>N = max 1 \<lceil>(\<pi>/2) / (angle_resolution * \<pi>/180)\<rceil> = max 1 \<lceil>90 / angle_resolution\<rceil>\<close>,
  and the corner grasps are four fans of \<open>N\<close> poses each, appended in the order of the
  corners \<open>(-a, -b)\<close>, \<open>(-a, +b)\<close>, \<open>(+a, +b)\<close>, \<open>(+a, -b)\<close> of the face across the approach
  axis. Every pose of a fan sits at its corner, the box centre moved by half the extent
  plus the offset along \<open>a\<close> and along \<open>b\<close>; the \<open>k\<close>-th pose is the corner's aligned pose
  (the axis angles, then the corner's rotation \<open>0\<close>, \<open>-\<pi>/2\<close>, \<open>\<pi>\<close>, \<open>\<pi>/2\<close> about Y) turned
  about its own Y axis by \<open>k * (\<pi>/2) / (N + 1)\<close>, for \<open>k = 1, ..., N\<close>, so the fan stays
  strictly inside the quarter turn of the corner.
\<close>

theorem cornerGrasps_fan_degrees:
  "0 < angle_resolution gd \<Longrightarrow>
   int_range (\<lceil>90 / angle_resolution gd\<rceil> + 1) \<Longrightarrow>
   num_radial_grasps gd = max 1 \<lceil>(pi / 2) / (angle_resolution gd * pi / 180)\<rceil> \<and>
   num_radial_grasps gd = max 1 \<lceil>90 / angle_resolution gd\<rceil> \<and>
   int_range (num_radial_grasps gd + 1) \<and>
   (let N = num_radial_grasps gd;
        ta = smul (0.5 * (length_along_a axis depth width height + offset)) (a_dir axis cuboid_pose);
        tb = smul (0.5 * (length_along_b axis depth width height + offset)) (b_dir axis cuboid_pose);
        fan = (\<lambda>shift corner_rotation.
                 map (\<lambda>k. rotate_by
                             (aligned_pose cuboid_pose (rotation_angles axis) corner_rotation shift)
                             (AngleAxisY (real (Suc k) * ((pi / 2) / real_of_int (N + 1)))))
                   [0..<nat N])
    in cornerGrasps cuboid_pose depth width height axis gd acc =
         acc @ fan (vsub (vneg ta) tb) 0 @ fan (vadd (vneg ta) tb) (- pi / 2)
             @ fan (vadd ta tb) pi @ fan (vsub ta tb) (pi / 2) \<and>
       length (fan shift corner_rotation) = nat N \<and>
       list_all (\<lambda>p. translation p = vadd (translation cuboid_pose) shift)
         (fan shift corner_rotation) \<and>
       real_of_int N * ((pi / 2) / real_of_int (N + 1)) < pi / 2)"
proof -
  assume pos: "0 < angle_resolution gd"
    and fits1: "int_range (\<lceil>90 / angle_resolution gd\<rceil> + 1)"
  have "0 < 90 / angle_resolution gd" using pos by simp
  then have one: "1 \<le> \<lceil>90 / angle_resolution gd\<rceil>" by linarith
  then have fits: "int_range \<lceil>90 / angle_resolution gd\<rceil>"
    using fits1 unfolding int_range_def INT_MIN_def INT_MAX_def by linarith
  have nr: "num_radial_grasps gd = \<lceil>90 / angle_resolution gd\<rceil>"
    using num_radial_grasps_in_range[OF pos fits] by simp
  have q: "(pi / 2) / (angle_resolution gd * pi / 180) = 90 / angle_resolution gd"
    by simp
  have a: "num_radial_grasps gd = max 1 \<lceil>(pi / 2) / (angle_resolution gd * pi / 180)\<rceil>"
    using one unfolding q nr by linarith
  have b: "num_radial_grasps gd = max 1 \<lceil>90 / angle_resolution gd\<rceil>"
    using one unfolding nr by linarith
  have c: "int_range (num_radial_grasps gd + 1)"
    using fits1 by (simp add: nr)
  have p: "0 < real_of_int (num_radial_grasps gd)"
    using num_radial_grasps_pos[of gd] by simp
  then have "real_of_int (num_radial_grasps gd) / (real_of_int (num_radial_grasps gd) + 1) < 1"
    by simp
  then have "real_of_int (num_radial_grasps gd) / (real_of_int (num_radial_grasps gd) + 1) * (pi / 2)
      < 1 * (pi / 2)"
    by (intro mult_strict_right_mono) simp_all
  then have d: "real_of_int (num_radial_grasps gd) *
      ((pi / 2) / real_of_int (num_radial_grasps gd + 1)) < pi / 2"
    using p by (simp add: field_simps)
  have tr: "translation (rotate_by (aligned_pose cuboid_pose (rotation_angles axis) cr sh) R) =
      vadd (translation cuboid_pose) sh" for cr sh R
    by (simp add: rotate_by_def aligned_pose_def translate_def)
  have e: "cornerGrasps cuboid_pose depth width height axis gd acc =
      acc @ map (\<lambda>k. rotate_by
                  (aligned_pose cuboid_pose (rotation_angles axis) 0
                     (vsub (vneg (smul (0.5 * (length_along_a axis depth width height + offset))
                                    (a_dir axis cuboid_pose)))
                           (smul (0.5 * (length_along_b axis depth width height + offset))
                              (b_dir axis cuboid_pose))))
                  (AngleAxisY (real (Suc k) *
                     ((pi / 2) / real_of_int (num_radial_grasps gd + 1)))))
             [0..<nat (num_radial_grasps gd)]
          @ map (\<lambda>k. rotate_by
                  (aligned_pose cuboid_pose (rotation_angles axis) (- pi / 2)
                     (vadd (vneg (smul (0.5 * (length_along_a axis depth width height + offset))
                                    (a_dir axis cuboid_pose)))
                           (smul (0.5 * (length_along_b axis depth width height + offset))
                              (b_dir axis cuboid_pose))))
                  (AngleAxisY (real (Suc k) *
                     ((pi / 2) / real_of_int (num_radial_grasps gd + 1)))))
             [0..<nat (num_radial_grasps gd)]
          @ map (\<lambda>k. rotate_by
                  (aligned_pose cuboid_pose (rotation_angles axis) pi
                     (vadd (smul (0.5 * (length_along_a axis depth width height + offset))
                              (a_dir axis cuboid_pose))
                           (smul (0.5 * (length_along_b axis depth width height + offset))
                              (b_dir axis cuboid_pose))))
                  (AngleAxisY (real (Suc k) *
                     ((pi / 2) / real_of_int (num_radial_grasps gd + 1)))))
             [0..<nat (num_radial_grasps gd)]
          @ map (\<lambda>k. rotate_by
                  (aligned_pose cuboid_pose (rotation_angles axis) (pi / 2)
                     (vsub (smul (0.5 * (length_along_a axis depth width height + offset))
                              (a_dir axis cuboid_pose))
                           (smul (0.5 * (length_along_b axis depth width height + offset))
                              (b_dir axis cuboid_pose))))
                  (AngleAxisY (real (Suc k) *
                     ((pi / 2) / real_of_int (num_radial_grasps gd + 1)))))
             [0..<nat (num_radial_grasps gd)]"
    by (simp only: cornerGrasps_def Let_def addCornerGraspsHelper_eq append_assoc)
  have f: "list_all (\<lambda>p. translation p = vadd (translation cuboid_pose) shift)
      (map (\<lambda>k. rotate_by
                  (aligned_pose cuboid_pose (rotation_angles axis) corner_rotation shift)
                  (AngleAxisY (real (Suc k) *
                     ((pi / 2) / real_of_int (num_radial_grasps gd + 1)))))
         [0..<nat (num_radial_grasps gd)])"
    by (simp add: list_all_iff tr)
  show ?thesis
    unfolding Let_def using a b c d e f by simp
qed

theorem cornerGrasps_fan_degrees_witness:
  "0 < angle_resolution example_grasp_data \<and>
   int_range (\<lceil>90 / angle_resolution example_grasp_data\<rceil> + 1) \<and>
   num_radial_grasps example_grasp_data = 347 \<and>
   length (cornerGrasps affine_identity 0.04 0.06 0.08 X_AXIS example_grasp_data []) = 1388"
proof -
  have r: "0 < angle_resolution example_grasp_data"
    by (simp add: example_grasp_data_def)
  have c: "\<lceil>90 / angle_resolution example_grasp_data\<rceil> = 347"
    by (simp add: example_grasp_data_def)
  have fits: "int_range (\<lceil>90 / angle_resolution example_grasp_data\<rceil> + 1)"
    by (simp add: c int_range_def INT_MIN_def INT_MAX_def)
  note T = cornerGrasps_fan_degrees
      [OF r fits, of X_AXIS "0.04" "0.06" "0.08" affine_identity "[]" "(0, 0, 0)" 0]
  have n: "num_radial_grasps example_grasp_data = 347"
    using T c by simp
  have "length (cornerGrasps affine_identity 0.04 0.06 0.08 X_AXIS example_grasp_data []) = 1388"
    using T unfolding Let_def by (simp add: n)
  then show ?thesis using r fits n by simp
qed

text \<open>
  C4 as the specification states it: the candidate pose is the ideal pose and the box
  centre lies exactly the usable finger length (here \<open>1/2\<close>) from the palm. The score is
  \<open>2/3\<close>, not 1: at that distance the third component is 0.
\<close>

theorem scoreGrasp_at_finger_length_counterexample:
  "norm3 (vsub (translation ideal_pose)
      (translation (affine_identity\<lparr>translation := (1 / 2, 0, 0)\<rparr>))) =
     finger_to_palm_depth binary_grasp_data - grasp_min_depth binary_grasp_data \<and>
   fst (scoreGrasp example_generator ideal_pose binary_grasp_data
          (affine_identity\<lparr>translation := (1 / 2, 0, 0)\<rparr>)) = 2 / 3 \<and>
   fst (scoreGrasp example_generator ideal_pose binary_grasp_data
          (affine_identity\<lparr>translation := (1 / 2, 0, 0)\<rparr>)) \<noteq> 1"
proof -
  have d: "norm3 (vsub (translation ideal_pose)
      (translation (affine_identity\<lparr>translation := (1 / 2, 0, 0)\<rparr>))) =
     finger_to_palm_depth binary_grasp_data - grasp_min_depth binary_grasp_data"
    by (simp add: ideal_translation norm3_def binary_grasp_data_def real_sqrt_divide)
  then have "score_distance ideal_pose binary_grasp_data
      (affine_identity\<lparr>translation := (1 / 2, 0, 0)\<rparr>) = 0"
    by (simp add: score_distance_def Let_def)
  then show ?thesis using d
    by (simp add: scoreGrasp_fst score_z_ideal score_y_ideal)
qed

text \<open>
  C4, amended. The score is the mean of the three components. It is exactly 1 when the
  pose has the ideal orientation and the palm is at the box centre (distance 0, usable
  finger length positive), and exactly \<open>2/3\<close> when the pose has the ideal orientation and
  the distance equals the usable finger length. When the distance exceeds the usable
  finger length the third component is 0 and the score is the mean of the three (a third
  of the sum of the other two).
\<close>

theorem scoreGrasp_values:
  "fst (scoreGrasp gen pose gd obj) =
     (score_z ideal_pose pose + score_y ideal_pose pose + score_distance pose gd obj) / 3 \<and>
   (linear_part pose = linear_part ideal_pose \<and> translation pose = translation obj \<and>
    0 < finger_to_palm_depth gd - grasp_min_depth gd \<longrightarrow>
      fst (scoreGrasp gen pose gd obj) = 1) \<and>
   (linear_part pose = linear_part ideal_pose \<and>
    norm3 (vsub (translation pose) (translation obj)) =
      finger_to_palm_depth gd - grasp_min_depth gd \<and>
    0 < finger_to_palm_depth gd - grasp_min_depth gd \<longrightarrow>
      fst (scoreGrasp gen pose gd obj) = 2 / 3) \<and>
   (finger_to_palm_depth gd - grasp_min_depth gd <
      norm3 (vsub (translation pose) (translation obj)) \<longrightarrow>
      score_distance pose gd obj = 0 \<and>
      fst (scoreGrasp gen pose gd obj) = (score_z ideal_pose pose + score_y ideal_pose pose) / 3)"
  by (simp add: scoreGrasp_fst score_z_ideal score_y_ideal score_distance_def Let_def norm3_self)

theorem scoreGrasp_values_witness:
  "fst (scoreGrasp example_generator ideal_pose binary_grasp_data affine_identity) = 1 \<and>
   fst (scoreGrasp example_generator ideal_pose binary_grasp_data
          (affine_identity\<lparr>translation := (1 / 2, 0, 0)\<rparr>)) = 2 / 3 \<and>
   score_distance ideal_pose binary_grasp_data (affine_identity\<lparr>translation := (2, 0, 0)\<rparr>) = 0"
proof -
  have fl: "finger_to_palm_depth binary_grasp_data - grasp_min_depth binary_grasp_data = 1 / 2"
    by (simp add: binary_grasp_data_def)
  have t0: "translation affine_identity = (0, 0, 0)"
    by (simp add: affine_identity_def)
  have d1: "norm3 (- (1 / 2), 0, 0) = 1 / 2"
    by (simp add: norm3_def real_sqrt_divide)
  have d2: "norm3 (- 2, 0, 0) = 2"
    by (simp add: norm3_def)
  show ?thesis
    using scoreGrasp_values [of example_generator ideal_pose binary_grasp_data affine_identity]
      scoreGrasp_values [of example_generator ideal_pose binary_grasp_data
        "affine_identity\<lparr>translation := (1 / 2, 0, 0)\<rparr>"]
      scoreGrasp_values [of example_generator ideal_pose binary_grasp_data
        "affine_identity\<lparr>translation := (2, 0, 0)\<rparr>"]
    by (simp add: fl t0 d1 d2 ideal_translation)
qed

text \<open>
  C5. A mesh without vertices should make the box extractor fail, and the mesh overload
  of \<^verbatim>\<open>generateGrasps\<close> tests the extractor's result and reports the failure (lines
  608-612). The extractor has no check of the vertex count and a single
  \<^verbatim>\<open>return true\<close>: for a mesh without vertices, whatever its triangles and whatever the
  eigensolver answers, it returns true, and the mesh overload goes on to the box overload
  and returns true.
\<close>

theorem empty_mesh_is_accepted:
  "fst (getBoundingBoxFromMesh es \<lparr>vertices = [], triangles = ts\<rparr>) = True \<and>
   fst (generateGraspsMesh es gen \<lparr>vertices = [], triangles = ts\<rparr> cuboid_pose max_grasp_size
          grasp_data pg) = True"
  by (simp add: getBoundingBoxFromMesh_fst generateGraspsMesh_eq generateGrasps_fst)

text \<open>
  C6. The intersection test returns true exactly when \<open>0 \<le> t \<le> 1\<close> and the point
  interpolated between the two in-plane coordinate pairs at \<open>t\<close> lies within
  \<open>[-a/2, a/2] \<times> [-b/2, b/2]\<close>; in particular a \<open>t\<close> outside \<open>[0, 1]\<close> gives false
  whatever the in-plane point is.
\<close>

theorem intersectionHelper_contract:
  "intersectionHelper t u1 v1 u2 v2 a b =
     (0 \<le> t \<and> t \<le> 1 \<and>
      - (a / 2) \<le> u1 + t * (u2 - u1) \<and> u1 + t * (u2 - u1) \<le> a / 2 \<and>
      - (b / 2) \<le> v1 + t * (v2 - v1) \<and> v1 + t * (v2 - v1) \<le> b / 2) \<and>
   (t < 0 \<or> 1 < t \<longrightarrow> \<not> intersectionHelper t u1 v1 u2 v2 a b)"
  by (auto simp add: intersectionHelper_def Let_def)

theorem intersectionHelper_contract_witness:
  "((2::real) < 0 \<or> (1::real) < 2) \<and> \<not> intersectionHelper 2 0 0 0 0 1 1 \<and>
   intersectionHelper (1 / 2) 0 0 0 0 1 1 \<and> \<not> intersectionHelper (1 / 2) 0.6 0 0.6 0 1 1"
  using intersectionHelper_contract [of 2 0 0 0 0 1 1]
    intersectionHelper_contract [of "1 / 2" 0 0 0 0 1 1]
    intersectionHelper_contract [of "1 / 2" "0.6" 0 "0.6" 0 1 1]
  by simp

text \<open>
  C7 as the specification states it: scoring would leave the generator as it was. A call
  on a generator whose member \<^verbatim>\<open>ideal_grasp_pose_\<close> holds the identity changes the member.
\<close>

theorem scoreGrasp_mutates_generator_counterexample:
  "snd (scoreGrasp example_generator affine_identity example_grasp_data affine_identity) \<noteq>
     example_generator"
  by (simp add: scoreGrasp_snd example_generator_def ideal_pose_def rotate_by_def
        affine_identity_def mat_identity_def AngleAxisY_def AngleAxisZ_def)

text \<open>
  C7, amended. Every call of the scorer assigns the member \<^verbatim>\<open>ideal_grasp_pose_\<close>, always
  with the same constant pose, and changes no other member of the generator. The score
  does not depend on the generator before the call, and a call on a generator whose
  member already holds the constant leaves the generator as it was.
\<close>

theorem scoreGrasp_writes_ideal_pose:
  "snd (scoreGrasp gen pose gd obj) = gen\<lparr>ideal_grasp_pose := ideal_pose\<rparr> \<and>
   fst (scoreGrasp gen pose gd obj) = fst (scoreGrasp gen' pose gd obj) \<and>
   (ideal_grasp_pose gen = ideal_pose \<longrightarrow> snd (scoreGrasp gen pose gd obj) = gen)"
  by (simp add: scoreGrasp_fst scoreGrasp_snd)

theorem scoreGrasp_writes_ideal_pose_witness:
  "ideal_grasp_pose (example_generator\<lparr>ideal_grasp_pose := ideal_pose\<rparr>) = ideal_pose \<and>
   snd (scoreGrasp (example_generator\<lparr>ideal_grasp_pose := ideal_pose\<rparr>) affine_identity
          example_grasp_data affine_identity) =
     example_generator\<lparr>ideal_grasp_pose := ideal_pose\<rparr>"
  using scoreGrasp_writes_ideal_pose
    [of "example_generator\<lparr>ideal_grasp_pose := ideal_pose\<rparr>" affine_identity
        example_grasp_data affine_identity]
  by simp



text \<open>
  C9 as the specification states it: the depth poses would be translated along the
  pose's approach direction. For the box \<open>0.5 \<times> 1 \<times> 2\<close> around the X axis the first face
  pose (index 8) sits at \<open>y = -0.5005\<close> with its approach direction, the Z axis, along
  \<open>+y\<close>; its first depth pose (index \<open>36 + 2 * 8\<close>, after the 36 corner and face poses) sits
  at \<open>y = -0.7505\<close>: it is moved against the approach direction.
\<close>

theorem depth_poses_move_against_approach_counterexample:
  "example_pre_sweep ! 8 = example_face_pose \<and>
   mat_vec (rotation example_face_pose) UnitZ = (0, 1, 0) \<and>
   example_pre_sweep ! 52 = example_face_pose\<lparr>translation := (0, - 0.7505, - 0.75)\<rparr> \<and>
   example_pre_sweep ! 52 \<noteq>
     example_face_pose\<lparr>translation :=
       vadd (translation example_face_pose)
         (smul (delta_f binary_grasp_data) (mat_vec (rotation example_face_pose) UnitZ))\<rparr>"
proof -
  have z: "mat_vec (rotation example_face_pose) UnitZ = (0, 1, 0)"
    by (simp add: example_face_pose_def rotation_def UnitZ_def)
  have nd: "num_depth_grasps binary_grasp_data = 2"
    by (simp add: num_depth_grasps_def finger_depth_def binary_grasp_data_def int_conv)
  have df: "delta_f binary_grasp_data = 1 / 4"
    by (simp add: delta_f_def nd) (simp add: finger_depth_def binary_grasp_data_def)
  have "example_face_pose\<lparr>translation := (0, - 0.7505, - 0.75)\<rparr> \<noteq>
     example_face_pose\<lparr>translation :=
       vadd (translation example_face_pose)
         (smul (delta_f binary_grasp_data) (mat_vec (rotation example_face_pose) UnitZ))\<rparr>"
    by (simp add: z df) (simp add: example_face_pose_def)
  then show ?thesis
    using example_first_face_pose example_first_depth_pose z by simp
qed

text \<open>
  C9, amended. For a positive depth resolution whose count is in the range of the
  program's \<^verbatim>\<open>int\<close>, the depth step keeps the poses it is given (those of the corner and
  face families) and appends, for each of them, \<open>max 1 \<lceil>finger_depth / depth_resolution\<rceil>\<close>
  poses; the \<open>k\<close>-th of them is the pose moved by \<open>k\<close> steps of \<open>finger_depth / count\<close>
  against its approach direction, its own Z axis (the source subtracts
  \<^verbatim>\<open>delta_f * grasp_dir\<close>), so the last one is moved back by the usable finger length
  \<open>finger_to_palm_depth - grasp_min_depth\<close>. The number of poses after the step is the
  number before it times one plus the count.
\<close>

theorem depthGrasps_count_and_steps:
  "0 < grasp_depth_resolution gd \<Longrightarrow>
   int_range \<lceil>(finger_to_palm_depth gd - grasp_min_depth gd) / grasp_depth_resolution gd\<rceil> \<Longrightarrow>
   depthGrasps gd ps =
     ps @ concat (map (\<lambda>p. map (\<lambda>k. p\<lparr>translation :=
            vsub (translation p)
              (smul (real (Suc k) * delta_f gd) (mat_vec (rotation p) UnitZ))\<rparr>)
          [0..<nat (num_depth_grasps gd)]) ps) \<and>
   num_depth_grasps gd =
     max 1 \<lceil>(finger_to_palm_depth gd - grasp_min_depth gd) / grasp_depth_resolution gd\<rceil> \<and>
   int_range (num_depth_grasps gd) \<and>
   delta_f gd =
     (finger_to_palm_depth gd - grasp_min_depth gd) / real_of_int (num_depth_grasps gd) \<and>
   real_of_int (num_depth_grasps gd) * delta_f gd =
     finger_to_palm_depth gd - grasp_min_depth gd \<and>
   length (depthGrasps gd ps) = length ps * (1 + nat (num_depth_grasps gd))"
proof -
  assume fits: "int_range
      \<lceil>(finger_to_palm_depth gd - grasp_min_depth gd) / grasp_depth_resolution gd\<rceil>"
  have n: "num_depth_grasps gd =
      max 1 \<lceil>(finger_to_palm_depth gd - grasp_min_depth gd) / grasp_depth_resolution gd\<rceil>"
    by (rule num_depth_grasps_in_range[OF fits])
  have r: "int_range (num_depth_grasps gd)"
    using fits by (simp add: n int_range_def INT_MIN_def INT_MAX_def max_def)
  have "real_of_int (num_depth_grasps gd) * delta_f gd =
      finger_to_palm_depth gd - grasp_min_depth gd"
    using num_depth_grasps_pos[of gd] by (simp add: delta_f_def finger_depth_def)
  moreover have "delta_f gd =
      (finger_to_palm_depth gd - grasp_min_depth gd) / real_of_int (num_depth_grasps gd)"
    by (simp add: delta_f_def finger_depth_def)
  ultimately show ?thesis
    using n r depthGrasps_eq[of gd ps] length_depthGrasps[of gd ps] by blast
qed

theorem depthGrasps_count_and_steps_witness:
  "0 < grasp_depth_resolution binary_grasp_data \<and>
   int_range \<lceil>(finger_to_palm_depth binary_grasp_data - grasp_min_depth binary_grasp_data) /
               grasp_depth_resolution binary_grasp_data\<rceil> \<and>
   num_depth_grasps binary_grasp_data = 2 \<and> delta_f binary_grasp_data = 1 / 4 \<and>
   length (depthGrasps binary_grasp_data [affine_identity]) = 3 \<and>
   depthGrasps binary_grasp_data [affine_identity] =
     [affine_identity,
      affine_identity\<lparr>translation := (0, 0, - (1 / 4))\<rparr>,
      affine_identity\<lparr>translation := (0, 0, - (1 / 2))\<rparr>]"
proof -
  have q: "(finger_to_palm_depth binary_grasp_data - grasp_min_depth binary_grasp_data) /
      grasp_depth_resolution binary_grasp_data = 2"
    by (simp add: binary_grasp_data_def)
  have r: "0 < grasp_depth_resolution binary_grasp_data"
    by (simp add: binary_grasp_data_def)
  have fits: "int_range
      \<lceil>(finger_to_palm_depth binary_grasp_data - grasp_min_depth binary_grasp_data) /
        grasp_depth_resolution binary_grasp_data\<rceil>"
    by (simp add: q int_range_def INT_MIN_def INT_MAX_def)
  note T = depthGrasps_count_and_steps [OF r fits, of "[affine_identity]"]
  have n: "num_depth_grasps binary_grasp_data = 2"
    using T by (simp add: q)
  have d: "delta_f binary_grasp_data = 1 / 4"
    using T by (simp add: n) (simp add: binary_grasp_data_def)
  have u: "[0..<2] = [0, Suc 0]"
    by (simp add: numeral_2_eq_2)
  show ?thesis
    using r fits T
    by (simp add: n d u affine_identity_def rotation_def mat_identity_def UnitZ_def)
qed

text \<open>
  C10. The box overload of \<^verbatim>\<open>generateGrasps\<close> returns true for every input. It runs the
  enumeration for the X, Y and Z axis, in this order, each exactly when the extent along
  the axis is at most \<^verbatim>\<open>max_grasp_size\<close>; when no axis qualifies the output collection
  and the generator are unchanged and the result is still true.
\<close>

theorem generateGrasps_box_always_true:
  "fst (generateGrasps gen cuboid_pose depth width height max_grasp_size grasp_data pg) = True \<and>
   snd (generateGrasps gen cuboid_pose depth width height max_grasp_size grasp_data pg) =
     foldl (\<lambda>(pg', gen') axis.
              generateCuboidAxisGrasps gen' cuboid_pose depth width height axis grasp_data pg')
       (pg, gen)
       (map fst (filter (\<lambda>(axis, extent). extent \<le> max_grasp_size)
          [(X_AXIS, depth), (Y_AXIS, width), (Z_AXIS, height)])) \<and>
   (max_grasp_size < depth \<and> max_grasp_size < width \<and> max_grasp_size < height \<longrightarrow>
      generateGrasps gen cuboid_pose depth width height max_grasp_size grasp_data pg =
        (True, pg, gen))"
  by (simp add: generateGrasps_def Let_def split: prod.splits)

theorem generateGrasps_box_always_true_witness:
  "((1::real) < 2 \<and> (1::real) < 3 \<and> (1::real) < 4) \<and>
   generateGrasps example_generator affine_identity 2 3 4 1 example_grasp_data [] =
     (True, [], example_generator)"
  using generateGrasps_box_always_true
    [of example_generator affine_identity 2 3 4 1 example_grasp_data "[]"]
  by simp

end
